theory Spec2Isabelle
  imports Main "HOL-Library.Word"
begin

unbundle bit_operations_syntax

section \<open>Special abilities of the player: registry, costs, talents, activation\<close>

text \<open>
  A shallow embedding of the ability module (the file that opens with
  "Functions related to special abilities"): the static table \<open>Ability_List\<close>, the two cost
  structures, the placeholder mapping \<open>fixup_ability\<close>, \<open>get_talent\<close>, the slot
  bookkeeping, \<open>your_talents\<close>, \<open>activate_talent\<close> and \<open>_pay_ability_costs\<close>.

  C++ \<open>int\<close> values are modelled as HOL integers: signed overflow is undefined behaviour in
  the source language and the registry holds only small constants. Division of C++ integers
  truncates towards zero and is written \<open>c_div\<close>. The single global \<open>you\<close> (together with
  the parts of \<open>env\<close>, \<open>crawl_state\<close> and \<open>Options\<close> that are read) becomes an explicit
  record that every function takes and, where the source mutates it, returns.
\<close>

subsection \<open>Integer division of the source language\<close>

definition c_div :: "int \<Rightarrow> int \<Rightarrow> int" where
  "c_div a b = (if (a < 0) = (b < 0) then \<bar>a\<bar> div \<bar>b\<bar> else - (\<bar>a\<bar> div \<bar>b\<bar>))"

subsection \<open>Ability identities\<close>

text \<open>
  Modelled from the spec: the enumeration \<open>ability_type\<close> is declared in a header
  (ability-type.h) that is not available here. The spec asks for a unique identity key per
  definition, with identity 0 the sentinel "no action". An identity is therefore a tagged
  integer; the 130 identities that the ability module names are numbered in the order of
  their entries in \<open>Ability_List\<close>. Only their distinctness and the value 0 of the sentinel
  are used. Every other integer is an identity that the registry does not know (the source
  can obtain one through \<open>static_cast<ability_type>\<close> of a stored integer).
\<close>

datatype ability_type = ABIL int

abbreviation ABIL_NON_ABILITY :: ability_type where "ABIL_NON_ABILITY \<equiv> ABIL 0"
abbreviation ABIL_SPIT_POISON :: ability_type where "ABIL_SPIT_POISON \<equiv> ABIL 1"
abbreviation ABIL_BLINK :: ability_type where "ABIL_BLINK \<equiv> ABIL 2"
abbreviation ABIL_BREATHE_FIRE :: ability_type where "ABIL_BREATHE_FIRE \<equiv> ABIL 3"
abbreviation ABIL_BREATHE_FROST :: ability_type where "ABIL_BREATHE_FROST \<equiv> ABIL 4"
abbreviation ABIL_BREATHE_POISON :: ability_type where "ABIL_BREATHE_POISON \<equiv> ABIL 5"
abbreviation ABIL_BREATHE_MEPHITIC :: ability_type where "ABIL_BREATHE_MEPHITIC \<equiv> ABIL 6"
abbreviation ABIL_BREATHE_LIGHTNING :: ability_type where "ABIL_BREATHE_LIGHTNING \<equiv> ABIL 7"
abbreviation ABIL_BREATHE_POWER :: ability_type where "ABIL_BREATHE_POWER \<equiv> ABIL 8"
abbreviation ABIL_BREATHE_STICKY_FLAME :: ability_type where "ABIL_BREATHE_STICKY_FLAME \<equiv> ABIL 9"
abbreviation ABIL_BREATHE_STEAM :: ability_type where "ABIL_BREATHE_STEAM \<equiv> ABIL 10"
abbreviation ABIL_TRAN_BAT :: ability_type where "ABIL_TRAN_BAT \<equiv> ABIL 11"
abbreviation ABIL_SPIT_ACID :: ability_type where "ABIL_SPIT_ACID \<equiv> ABIL 12"
abbreviation ABIL_FLY :: ability_type where "ABIL_FLY \<equiv> ABIL 13"
abbreviation ABIL_STOP_FLYING :: ability_type where "ABIL_STOP_FLYING \<equiv> ABIL 14"
abbreviation ABIL_HELLFIRE :: ability_type where "ABIL_HELLFIRE \<equiv> ABIL 15"
abbreviation ABIL_DELAYED_FIREBALL :: ability_type where "ABIL_DELAYED_FIREBALL \<equiv> ABIL 16"
abbreviation ABIL_STOP_SINGING :: ability_type where "ABIL_STOP_SINGING \<equiv> ABIL 17"
abbreviation ABIL_MUMMY_RESTORATION :: ability_type where "ABIL_MUMMY_RESTORATION \<equiv> ABIL 18"
abbreviation ABIL_DIG :: ability_type where "ABIL_DIG \<equiv> ABIL 19"
abbreviation ABIL_SHAFT_SELF :: ability_type where "ABIL_SHAFT_SELF \<equiv> ABIL 20"
abbreviation ABIL_EVOKE_BLINK :: ability_type where "ABIL_EVOKE_BLINK \<equiv> ABIL 21"
abbreviation ABIL_RECHARGING :: ability_type where "ABIL_RECHARGING \<equiv> ABIL 22"
abbreviation ABIL_EVOKE_BERSERK :: ability_type where "ABIL_EVOKE_BERSERK \<equiv> ABIL 23"
abbreviation ABIL_EVOKE_TURN_INVISIBLE :: ability_type where "ABIL_EVOKE_TURN_INVISIBLE \<equiv> ABIL 24"
abbreviation ABIL_EVOKE_TURN_VISIBLE :: ability_type where "ABIL_EVOKE_TURN_VISIBLE \<equiv> ABIL 25"
abbreviation ABIL_EVOKE_FLIGHT :: ability_type where "ABIL_EVOKE_FLIGHT \<equiv> ABIL 26"
abbreviation ABIL_EVOKE_FOG :: ability_type where "ABIL_EVOKE_FOG \<equiv> ABIL 27"
abbreviation ABIL_END_TRANSFORMATION :: ability_type where "ABIL_END_TRANSFORMATION \<equiv> ABIL 28"
abbreviation ABIL_ZIN_RECITE :: ability_type where "ABIL_ZIN_RECITE \<equiv> ABIL 29"
abbreviation ABIL_ZIN_VITALISATION :: ability_type where "ABIL_ZIN_VITALISATION \<equiv> ABIL 30"
abbreviation ABIL_ZIN_IMPRISON :: ability_type where "ABIL_ZIN_IMPRISON \<equiv> ABIL 31"
abbreviation ABIL_ZIN_SANCTUARY :: ability_type where "ABIL_ZIN_SANCTUARY \<equiv> ABIL 32"
abbreviation ABIL_ZIN_CURE_ALL_MUTATIONS :: ability_type where "ABIL_ZIN_CURE_ALL_MUTATIONS \<equiv> ABIL 33"
abbreviation ABIL_ZIN_DONATE_GOLD :: ability_type where "ABIL_ZIN_DONATE_GOLD \<equiv> ABIL 34"
abbreviation ABIL_TSO_DIVINE_SHIELD :: ability_type where "ABIL_TSO_DIVINE_SHIELD \<equiv> ABIL 35"
abbreviation ABIL_TSO_CLEANSING_FLAME :: ability_type where "ABIL_TSO_CLEANSING_FLAME \<equiv> ABIL 36"
abbreviation ABIL_TSO_SUMMON_DIVINE_WARRIOR :: ability_type where "ABIL_TSO_SUMMON_DIVINE_WARRIOR \<equiv> ABIL 37"
abbreviation ABIL_TSO_BLESS_WEAPON :: ability_type where "ABIL_TSO_BLESS_WEAPON \<equiv> ABIL 38"
abbreviation ABIL_KIKU_RECEIVE_CORPSES :: ability_type where "ABIL_KIKU_RECEIVE_CORPSES \<equiv> ABIL 39"
abbreviation ABIL_KIKU_TORMENT :: ability_type where "ABIL_KIKU_TORMENT \<equiv> ABIL 40"
abbreviation ABIL_KIKU_GIFT_NECRONOMICON :: ability_type where "ABIL_KIKU_GIFT_NECRONOMICON \<equiv> ABIL 41"
abbreviation ABIL_KIKU_BLESS_WEAPON :: ability_type where "ABIL_KIKU_BLESS_WEAPON \<equiv> ABIL 42"
abbreviation ABIL_YRED_INJURY_MIRROR :: ability_type where "ABIL_YRED_INJURY_MIRROR \<equiv> ABIL 43"
abbreviation ABIL_YRED_ANIMATE_REMAINS :: ability_type where "ABIL_YRED_ANIMATE_REMAINS \<equiv> ABIL 44"
abbreviation ABIL_YRED_RECALL_UNDEAD_SLAVES :: ability_type where "ABIL_YRED_RECALL_UNDEAD_SLAVES \<equiv> ABIL 45"
abbreviation ABIL_YRED_ANIMATE_DEAD :: ability_type where "ABIL_YRED_ANIMATE_DEAD \<equiv> ABIL 46"
abbreviation ABIL_YRED_DRAIN_LIFE :: ability_type where "ABIL_YRED_DRAIN_LIFE \<equiv> ABIL 47"
abbreviation ABIL_YRED_ENSLAVE_SOUL :: ability_type where "ABIL_YRED_ENSLAVE_SOUL \<equiv> ABIL 48"
abbreviation ABIL_OKAWARU_HEROISM :: ability_type where "ABIL_OKAWARU_HEROISM \<equiv> ABIL 49"
abbreviation ABIL_OKAWARU_FINESSE :: ability_type where "ABIL_OKAWARU_FINESSE \<equiv> ABIL 50"
abbreviation ABIL_MAKHLEB_MINOR_DESTRUCTION :: ability_type where "ABIL_MAKHLEB_MINOR_DESTRUCTION \<equiv> ABIL 51"
abbreviation ABIL_MAKHLEB_LESSER_SERVANT_OF_MAKHLEB :: ability_type where "ABIL_MAKHLEB_LESSER_SERVANT_OF_MAKHLEB \<equiv> ABIL 52"
abbreviation ABIL_MAKHLEB_MAJOR_DESTRUCTION :: ability_type where "ABIL_MAKHLEB_MAJOR_DESTRUCTION \<equiv> ABIL 53"
abbreviation ABIL_MAKHLEB_GREATER_SERVANT_OF_MAKHLEB :: ability_type where "ABIL_MAKHLEB_GREATER_SERVANT_OF_MAKHLEB \<equiv> ABIL 54"
abbreviation ABIL_SIF_MUNA_CHANNEL_ENERGY :: ability_type where "ABIL_SIF_MUNA_CHANNEL_ENERGY \<equiv> ABIL 55"
abbreviation ABIL_SIF_MUNA_FORGET_SPELL :: ability_type where "ABIL_SIF_MUNA_FORGET_SPELL \<equiv> ABIL 56"
abbreviation ABIL_TROG_BURN_SPELLBOOKS :: ability_type where "ABIL_TROG_BURN_SPELLBOOKS \<equiv> ABIL 57"
abbreviation ABIL_TROG_BERSERK :: ability_type where "ABIL_TROG_BERSERK \<equiv> ABIL 58"
abbreviation ABIL_TROG_REGEN_MR :: ability_type where "ABIL_TROG_REGEN_MR \<equiv> ABIL 59"
abbreviation ABIL_TROG_BROTHERS_IN_ARMS :: ability_type where "ABIL_TROG_BROTHERS_IN_ARMS \<equiv> ABIL 60"
abbreviation ABIL_ELYVILON_LIFESAVING :: ability_type where "ABIL_ELYVILON_LIFESAVING \<equiv> ABIL 61"
abbreviation ABIL_ELYVILON_LESSER_HEALING :: ability_type where "ABIL_ELYVILON_LESSER_HEALING \<equiv> ABIL 62"
abbreviation ABIL_ELYVILON_HEAL_OTHER :: ability_type where "ABIL_ELYVILON_HEAL_OTHER \<equiv> ABIL 63"
abbreviation ABIL_ELYVILON_PURIFICATION :: ability_type where "ABIL_ELYVILON_PURIFICATION \<equiv> ABIL 64"
abbreviation ABIL_ELYVILON_GREATER_HEALING :: ability_type where "ABIL_ELYVILON_GREATER_HEALING \<equiv> ABIL 65"
abbreviation ABIL_ELYVILON_DIVINE_VIGOUR :: ability_type where "ABIL_ELYVILON_DIVINE_VIGOUR \<equiv> ABIL 66"
abbreviation ABIL_LUGONU_ABYSS_EXIT :: ability_type where "ABIL_LUGONU_ABYSS_EXIT \<equiv> ABIL 67"
abbreviation ABIL_LUGONU_BEND_SPACE :: ability_type where "ABIL_LUGONU_BEND_SPACE \<equiv> ABIL 68"
abbreviation ABIL_LUGONU_BANISH :: ability_type where "ABIL_LUGONU_BANISH \<equiv> ABIL 69"
abbreviation ABIL_LUGONU_CORRUPT :: ability_type where "ABIL_LUGONU_CORRUPT \<equiv> ABIL 70"
abbreviation ABIL_LUGONU_ABYSS_ENTER :: ability_type where "ABIL_LUGONU_ABYSS_ENTER \<equiv> ABIL 71"
abbreviation ABIL_LUGONU_BLESS_WEAPON :: ability_type where "ABIL_LUGONU_BLESS_WEAPON \<equiv> ABIL 72"
abbreviation ABIL_NEMELEX_TRIPLE_DRAW :: ability_type where "ABIL_NEMELEX_TRIPLE_DRAW \<equiv> ABIL 73"
abbreviation ABIL_NEMELEX_DEAL_FOUR :: ability_type where "ABIL_NEMELEX_DEAL_FOUR \<equiv> ABIL 74"
abbreviation ABIL_NEMELEX_STACK_FIVE :: ability_type where "ABIL_NEMELEX_STACK_FIVE \<equiv> ABIL 75"
abbreviation ABIL_BEOGH_SMITING :: ability_type where "ABIL_BEOGH_SMITING \<equiv> ABIL 76"
abbreviation ABIL_BEOGH_RECALL_ORCISH_FOLLOWERS :: ability_type where "ABIL_BEOGH_RECALL_ORCISH_FOLLOWERS \<equiv> ABIL 77"
abbreviation ABIL_BEOGH_GIFT_ITEM :: ability_type where "ABIL_BEOGH_GIFT_ITEM \<equiv> ABIL 78"
abbreviation ABIL_JIYVA_CALL_JELLY :: ability_type where "ABIL_JIYVA_CALL_JELLY \<equiv> ABIL 79"
abbreviation ABIL_JIYVA_JELLY_PARALYSE :: ability_type where "ABIL_JIYVA_JELLY_PARALYSE \<equiv> ABIL 80"
abbreviation ABIL_JIYVA_SLIMIFY :: ability_type where "ABIL_JIYVA_SLIMIFY \<equiv> ABIL 81"
abbreviation ABIL_JIYVA_CURE_BAD_MUTATION :: ability_type where "ABIL_JIYVA_CURE_BAD_MUTATION \<equiv> ABIL 82"
abbreviation ABIL_FEDHAS_EVOLUTION :: ability_type where "ABIL_FEDHAS_EVOLUTION \<equiv> ABIL 83"
abbreviation ABIL_FEDHAS_SUNLIGHT :: ability_type where "ABIL_FEDHAS_SUNLIGHT \<equiv> ABIL 84"
abbreviation ABIL_FEDHAS_PLANT_RING :: ability_type where "ABIL_FEDHAS_PLANT_RING \<equiv> ABIL 85"
abbreviation ABIL_FEDHAS_SPAWN_SPORES :: ability_type where "ABIL_FEDHAS_SPAWN_SPORES \<equiv> ABIL 86"
abbreviation ABIL_FEDHAS_RAIN :: ability_type where "ABIL_FEDHAS_RAIN \<equiv> ABIL 87"
abbreviation ABIL_CHEIBRIADOS_TIME_BEND :: ability_type where "ABIL_CHEIBRIADOS_TIME_BEND \<equiv> ABIL 88"
abbreviation ABIL_CHEIBRIADOS_DISTORTION :: ability_type where "ABIL_CHEIBRIADOS_DISTORTION \<equiv> ABIL 89"
abbreviation ABIL_CHEIBRIADOS_SLOUCH :: ability_type where "ABIL_CHEIBRIADOS_SLOUCH \<equiv> ABIL 90"
abbreviation ABIL_CHEIBRIADOS_TIME_STEP :: ability_type where "ABIL_CHEIBRIADOS_TIME_STEP \<equiv> ABIL 91"
abbreviation ABIL_ASHENZARI_SCRYING :: ability_type where "ABIL_ASHENZARI_SCRYING \<equiv> ABIL 92"
abbreviation ABIL_ASHENZARI_TRANSFER_KNOWLEDGE :: ability_type where "ABIL_ASHENZARI_TRANSFER_KNOWLEDGE \<equiv> ABIL 93"
abbreviation ABIL_ASHENZARI_END_TRANSFER :: ability_type where "ABIL_ASHENZARI_END_TRANSFER \<equiv> ABIL 94"
abbreviation ABIL_DITHMENOS_SHADOW_STEP :: ability_type where "ABIL_DITHMENOS_SHADOW_STEP \<equiv> ABIL 95"
abbreviation ABIL_DITHMENOS_SHADOW_FORM :: ability_type where "ABIL_DITHMENOS_SHADOW_FORM \<equiv> ABIL 96"
abbreviation ABIL_RU_DRAW_OUT_POWER :: ability_type where "ABIL_RU_DRAW_OUT_POWER \<equiv> ABIL 97"
abbreviation ABIL_RU_POWER_LEAP :: ability_type where "ABIL_RU_POWER_LEAP \<equiv> ABIL 98"
abbreviation ABIL_RU_APOCALYPSE :: ability_type where "ABIL_RU_APOCALYPSE \<equiv> ABIL 99"
abbreviation ABIL_RU_SACRIFICE_PURITY :: ability_type where "ABIL_RU_SACRIFICE_PURITY \<equiv> ABIL 100"
abbreviation ABIL_RU_SACRIFICE_WORDS :: ability_type where "ABIL_RU_SACRIFICE_WORDS \<equiv> ABIL 101"
abbreviation ABIL_RU_SACRIFICE_DRINK :: ability_type where "ABIL_RU_SACRIFICE_DRINK \<equiv> ABIL 102"
abbreviation ABIL_RU_SACRIFICE_ESSENCE :: ability_type where "ABIL_RU_SACRIFICE_ESSENCE \<equiv> ABIL 103"
abbreviation ABIL_RU_SACRIFICE_HEALTH :: ability_type where "ABIL_RU_SACRIFICE_HEALTH \<equiv> ABIL 104"
abbreviation ABIL_RU_SACRIFICE_STEALTH :: ability_type where "ABIL_RU_SACRIFICE_STEALTH \<equiv> ABIL 105"
abbreviation ABIL_RU_SACRIFICE_ARTIFICE :: ability_type where "ABIL_RU_SACRIFICE_ARTIFICE \<equiv> ABIL 106"
abbreviation ABIL_RU_SACRIFICE_LOVE :: ability_type where "ABIL_RU_SACRIFICE_LOVE \<equiv> ABIL 107"
abbreviation ABIL_RU_SACRIFICE_COURAGE :: ability_type where "ABIL_RU_SACRIFICE_COURAGE \<equiv> ABIL 108"
abbreviation ABIL_RU_SACRIFICE_ARCANA :: ability_type where "ABIL_RU_SACRIFICE_ARCANA \<equiv> ABIL 109"
abbreviation ABIL_RU_SACRIFICE_NIMBLENESS :: ability_type where "ABIL_RU_SACRIFICE_NIMBLENESS \<equiv> ABIL 110"
abbreviation ABIL_RU_SACRIFICE_DURABILITY :: ability_type where "ABIL_RU_SACRIFICE_DURABILITY \<equiv> ABIL 111"
abbreviation ABIL_RU_SACRIFICE_HAND :: ability_type where "ABIL_RU_SACRIFICE_HAND \<equiv> ABIL 112"
abbreviation ABIL_RU_SACRIFICE_EXPERIENCE :: ability_type where "ABIL_RU_SACRIFICE_EXPERIENCE \<equiv> ABIL 113"
abbreviation ABIL_RU_SACRIFICE_SKILL :: ability_type where "ABIL_RU_SACRIFICE_SKILL \<equiv> ABIL 114"
abbreviation ABIL_RU_SACRIFICE_EYE :: ability_type where "ABIL_RU_SACRIFICE_EYE \<equiv> ABIL 115"
abbreviation ABIL_RU_SACRIFICE_RESISTANCE :: ability_type where "ABIL_RU_SACRIFICE_RESISTANCE \<equiv> ABIL 116"
abbreviation ABIL_RU_REJECT_SACRIFICES :: ability_type where "ABIL_RU_REJECT_SACRIFICES \<equiv> ABIL 117"
abbreviation ABIL_GOZAG_POTION_PETITION :: ability_type where "ABIL_GOZAG_POTION_PETITION \<equiv> ABIL 118"
abbreviation ABIL_GOZAG_CALL_MERCHANT :: ability_type where "ABIL_GOZAG_CALL_MERCHANT \<equiv> ABIL 119"
abbreviation ABIL_GOZAG_BRIBE_BRANCH :: ability_type where "ABIL_GOZAG_BRIBE_BRANCH \<equiv> ABIL 120"
abbreviation ABIL_QAZLAL_UPHEAVAL :: ability_type where "ABIL_QAZLAL_UPHEAVAL \<equiv> ABIL 121"
abbreviation ABIL_QAZLAL_ELEMENTAL_FORCE :: ability_type where "ABIL_QAZLAL_ELEMENTAL_FORCE \<equiv> ABIL 122"
abbreviation ABIL_QAZLAL_DISASTER_AREA :: ability_type where "ABIL_QAZLAL_DISASTER_AREA \<equiv> ABIL 123"
abbreviation ABIL_PAKELLAS_DEVICE_SURGE :: ability_type where "ABIL_PAKELLAS_DEVICE_SURGE \<equiv> ABIL 124"
abbreviation ABIL_PAKELLAS_QUICK_CHARGE :: ability_type where "ABIL_PAKELLAS_QUICK_CHARGE \<equiv> ABIL 125"
abbreviation ABIL_PAKELLAS_SUPERCHARGE :: ability_type where "ABIL_PAKELLAS_SUPERCHARGE \<equiv> ABIL 126"
abbreviation ABIL_STOP_RECALL :: ability_type where "ABIL_STOP_RECALL \<equiv> ABIL 127"
abbreviation ABIL_RENOUNCE_RELIGION :: ability_type where "ABIL_RENOUNCE_RELIGION \<equiv> ABIL 128"
abbreviation ABIL_CONVERT_TO_BEOGH :: ability_type where "ABIL_CONVERT_TO_BEOGH \<equiv> ABIL 129"

subsection \<open>Behavioural flags\<close>

text \<open>The bit field \<open>ability_flags\<close> over \<open>enum class abflag\<close>.\<close>

type_synonym ability_flags = "32 word"

abbreviation abflag_NONE :: ability_flags where "abflag_NONE \<equiv> 0x00000000"
abbreviation abflag_BREATH :: ability_flags where "abflag_BREATH \<equiv> 0x00000001"
abbreviation abflag_DELAY :: ability_flags where "abflag_DELAY \<equiv> 0x00000002"
abbreviation abflag_PAIN :: ability_flags where "abflag_PAIN \<equiv> 0x00000004"
abbreviation abflag_PIETY :: ability_flags where "abflag_PIETY \<equiv> 0x00000008"
abbreviation abflag_EXHAUSTION :: ability_flags where "abflag_EXHAUSTION \<equiv> 0x00000010"
abbreviation abflag_INSTANT :: ability_flags where "abflag_INSTANT \<equiv> 0x00000020"
abbreviation abflag_PERMANENT_HP :: ability_flags where "abflag_PERMANENT_HP \<equiv> 0x00000040"
abbreviation abflag_PERMANENT_MP :: ability_flags where "abflag_PERMANENT_MP \<equiv> 0x00000080"
abbreviation abflag_CONF_OK :: ability_flags where "abflag_CONF_OK \<equiv> 0x00000100"
abbreviation abflag_FRUIT :: ability_flags where "abflag_FRUIT \<equiv> 0x00000200"
abbreviation abflag_VARIABLE_FRUIT :: ability_flags where "abflag_VARIABLE_FRUIT \<equiv> 0x00000400"
abbreviation abflag_VARIABLE_MP :: ability_flags where "abflag_VARIABLE_MP \<equiv> 0x00000800"
abbreviation abflag_SKILL_DRAIN :: ability_flags where "abflag_SKILL_DRAIN \<equiv> 0x00080000"
abbreviation abflag_GOLD :: ability_flags where "abflag_GOLD \<equiv> 0x00100000"
abbreviation abflag_SACRIFICE :: ability_flags where "abflag_SACRIFICE \<equiv> 0x00200000"
abbreviation abflag_HOSTILE :: ability_flags where "abflag_HOSTILE \<equiv> 0x00400000"

text \<open>\<open>testbits(flags, test)\<close> is \<open>(flags & test) == test\<close>; a bare \<open>flags & f\<close> used as a
  condition is true when some bit of \<open>f\<close> is set.\<close>

definition testbits :: "ability_flags \<Rightarrow> ability_flags \<Rightarrow> bool" where
  "testbits fl test = (fl AND test = test)"

definition has_flag :: "ability_flags \<Rightarrow> ability_flags \<Rightarrow> bool" where
  "has_flag fl f = (fl AND f \<noteq> 0)"

subsection \<open>The random source\<close>

text \<open>
  Modelled from the spec: the generator (\<open>random2\<close>, \<open>random2avg\<close>, declared in random.h)
  is implemented in random.cc, which is not available here. The spec describes a
  pseudo-random source with uniform draws \<open>draw_uniform(n)\<close> over \<open>[0, n)\<close> and an
  averaging roll \<open>draw_averaged(max, rolls)\<close>, the roll-averaged sum of \<open>rolls\<close> uniform
  draws over \<open>[0, max)\<close>. The generator state is the infinite sequence of raw values it
  will produce (\<open>g 0\<close> is the next one); a draw reduces the next raw value into the
  requested range and moves on. A range that holds at most the value 0 yields 0 without a
  draw.
\<close>

type_synonym rng = "nat \<Rightarrow> nat"

definition random2 :: "int \<Rightarrow> rng \<Rightarrow> int \<times> rng" where
  "random2 mx g = (if mx \<le> 1 then (0, g) else (int (g 0) mod mx, \<lambda>i. g (Suc i)))"

fun roll_sum :: "int \<Rightarrow> nat \<Rightarrow> rng \<Rightarrow> int \<times> rng" where
  "roll_sum mx 0 g = (0, g)"
| "roll_sum mx (Suc n) g =
     (let (r, g1) = random2 mx g; (s, g2) = roll_sum mx n g1 in (r + s, g2))"

definition random2avg :: "int \<Rightarrow> int \<Rightarrow> rng \<Rightarrow> int \<times> rng" where
  "random2avg mx rolls g =
     (let (s, g') = roll_sum mx (nat rolls) g in (c_div s rolls, g'))"

subsection \<open>Cost structures\<close>

record generic_cost =
  base :: int
  add :: int
  rolls :: int

text \<open>The one-argument constructor \<open>generic_cost(int num)\<close>.\<close>

definition generic_cost_num :: "int \<Rightarrow> generic_cost" where
  "generic_cost_num num =
     \<lparr>base = num, add = (if num = 0 then 0 else c_div (num + 1) 2 + 1), rolls = 1\<rparr>"

text \<open>The constructor \<open>generic_cost(int num, int _add, int _rolls = 1)\<close>.\<close>

definition generic_cost_ctor :: "int \<Rightarrow> int \<Rightarrow> int \<Rightarrow> generic_cost" where
  "generic_cost_ctor num a r = \<lparr>base = num, add = a, rolls = r\<rparr>"

definition generic_cost_fixed :: "int \<Rightarrow> generic_cost" where
  "generic_cost_fixed fixed = generic_cost_ctor fixed 0 1"

definition generic_cost_range :: "int \<Rightarrow> int \<Rightarrow> int \<Rightarrow> generic_cost" where
  "generic_cost_range low high r = generic_cost_ctor low (high - low + 1) r"

text \<open>\<open>generic_cost::cost()\<close>: \<open>base + (add > 0 ? random2avg(add, rolls) : 0)\<close>.\<close>

definition generic_cost_cost :: "generic_cost \<Rightarrow> rng \<Rightarrow> int \<times> rng" where
  "generic_cost_cost c g =
     (if add c > 0 then (let (r, g') = random2avg (add c) (rolls c) g in (base c + r, g'))
      else (base c, g))"

definition generic_cost_bool :: "generic_cost \<Rightarrow> bool" where
  "generic_cost_bool c = (base c > 0 \<or> add c > 0)"

text \<open>The only field of \<open>scaling_cost\<close> is \<open>value\<close>; it is called \<open>val\<close> here.\<close>

record scaling_cost =
  val :: int

definition scaling_cost_permille :: "int \<Rightarrow> scaling_cost" where
  "scaling_cost_permille permille = \<lparr>val = permille\<rparr>"

definition scaling_cost_fixed :: "int \<Rightarrow> scaling_cost" where
  "scaling_cost_fixed fixed = scaling_cost_permille (- fixed)"

text \<open>\<open>scaling_cost::cost(int max)\<close>:
  \<open>(value < 0) ? (-value) : ((value * max + 500) / 1000)\<close>.\<close>

definition scaling_cost_cost :: "scaling_cost \<Rightarrow> int \<Rightarrow> int" where
  "scaling_cost_cost c mx = (if val c < 0 then - val c else c_div (val c * mx + 500) 1000)"

definition scaling_cost_bool :: "scaling_cost \<Rightarrow> bool" where
  "scaling_cost_bool c = (val c \<noteq> 0)"

subsection \<open>The registry\<close>

record ability_def =
  ability :: ability_type
  name :: string
  mp_cost :: nat
  hp_cost :: scaling_cost
  food_cost :: nat
  piety_cost :: generic_cost
  flags :: ability_flags

definition ability_entry ::
  "ability_type \<Rightarrow> string \<Rightarrow> nat \<Rightarrow> scaling_cost \<Rightarrow> nat \<Rightarrow> generic_cost \<Rightarrow> ability_flags
   \<Rightarrow> ability_def" where
  "ability_entry a n mp hp food piety fl =
     \<lparr>ability = a, name = n, mp_cost = mp, hp_cost = hp, food_cost = food,
      piety_cost = piety, flags = fl\<rparr>"

definition Ability_List :: "ability_def list" where
  "Ability_List =
    [ability_entry ABIL_NON_ABILITY ''No ability'' 0 (scaling_cost_permille 0) 0 (generic_cost_num 0) abflag_NONE,
     ability_entry ABIL_SPIT_POISON ''Spit Poison'' 0 (scaling_cost_permille 0) 40 (generic_cost_num 0) abflag_BREATH,
     ability_entry ABIL_BLINK ''Blink'' 0 (scaling_cost_permille 50) 50 (generic_cost_num 0) abflag_NONE,
     ability_entry ABIL_BREATHE_FIRE ''Breathe Fire'' 0 (scaling_cost_permille 0) 125 (generic_cost_num 0) abflag_BREATH,
     ability_entry ABIL_BREATHE_FROST ''Breathe Frost'' 0 (scaling_cost_permille 0) 125 (generic_cost_num 0) abflag_BREATH,
     ability_entry ABIL_BREATHE_POISON ''Breathe Poison Gas'' 0 (scaling_cost_permille 0) 125 (generic_cost_num 0) abflag_BREATH,
     ability_entry ABIL_BREATHE_MEPHITIC ''Breathe Noxious Fumes'' 0 (scaling_cost_permille 0) 125 (generic_cost_num 0) abflag_BREATH,
     ability_entry ABIL_BREATHE_LIGHTNING ''Breathe Lightning'' 0 (scaling_cost_permille 0) 125 (generic_cost_num 0) abflag_BREATH,
     ability_entry ABIL_BREATHE_POWER ''Breathe Dispelling Energy'' 0 (scaling_cost_permille 0) 125 (generic_cost_num 0) abflag_BREATH,
     ability_entry ABIL_BREATHE_STICKY_FLAME ''Breathe Sticky Flame'' 0 (scaling_cost_permille 0) 125 (generic_cost_num 0) abflag_BREATH,
     ability_entry ABIL_BREATHE_STEAM ''Breathe Steam'' 0 (scaling_cost_permille 0) 75 (generic_cost_num 0) abflag_BREATH,
     ability_entry ABIL_TRAN_BAT ''Bat Form'' 2 (scaling_cost_permille 0) 0 (generic_cost_num 0) abflag_NONE,
     ability_entry ABIL_SPIT_ACID ''Spit Acid'' 0 (scaling_cost_permille 0) 125 (generic_cost_num 0) abflag_BREATH,
     ability_entry ABIL_FLY ''Fly'' 3 (scaling_cost_permille 0) 100 (generic_cost_num 0) abflag_NONE,
     ability_entry ABIL_STOP_FLYING ''Stop Flying'' 0 (scaling_cost_permille 0) 0 (generic_cost_num 0) abflag_NONE,
     ability_entry ABIL_HELLFIRE ''Hellfire'' 0 (scaling_cost_permille 150) 200 (generic_cost_num 0) abflag_NONE,
     ability_entry ABIL_DELAYED_FIREBALL ''Release Delayed Fireball'' 0 (scaling_cost_permille 0) 0 (generic_cost_num 0) abflag_INSTANT,
     ability_entry ABIL_STOP_SINGING ''Stop Singing'' 0 (scaling_cost_permille 0) 0 (generic_cost_num 0) abflag_NONE,
     ability_entry ABIL_MUMMY_RESTORATION ''Self-Restoration'' 1 (scaling_cost_permille 0) 0 (generic_cost_num 0) abflag_PERMANENT_MP,
     ability_entry ABIL_DIG ''Dig'' 0 (scaling_cost_permille 0) 0 (generic_cost_num 0) abflag_INSTANT,
     ability_entry ABIL_SHAFT_SELF ''Shaft Self'' 0 (scaling_cost_permille 0) 250 (generic_cost_num 0) abflag_DELAY,
     ability_entry ABIL_EVOKE_BLINK ''Evoke Blink'' 1 (scaling_cost_permille 0) 50 (generic_cost_num 0) abflag_NONE,
     ability_entry ABIL_RECHARGING ''Device Recharging'' 1 (scaling_cost_permille 0) 0 (generic_cost_num 0) abflag_PERMANENT_MP,
     ability_entry ABIL_EVOKE_BERSERK ''Evoke Berserk Rage'' 0 (scaling_cost_permille 0) 0 (generic_cost_num 0) abflag_NONE,
     ability_entry ABIL_EVOKE_TURN_INVISIBLE ''Evoke Invisibility'' 2 (scaling_cost_permille 0) 250 (generic_cost_num 0) abflag_NONE,
     ability_entry ABIL_EVOKE_TURN_VISIBLE ''Turn Visible'' 0 (scaling_cost_permille 0) 0 (generic_cost_num 0) abflag_NONE,
     ability_entry ABIL_EVOKE_FLIGHT ''Evoke Flight'' 1 (scaling_cost_permille 0) 100 (generic_cost_num 0) abflag_NONE,
     ability_entry ABIL_EVOKE_FOG ''Evoke Fog'' 2 (scaling_cost_permille 0) 250 (generic_cost_num 0) abflag_NONE,
     ability_entry ABIL_END_TRANSFORMATION ''End Transformation'' 0 (scaling_cost_permille 0) 0 (generic_cost_num 0) abflag_NONE,
     ability_entry ABIL_ZIN_RECITE ''Recite'' 0 (scaling_cost_permille 0) 0 (generic_cost_num 0) abflag_BREATH,
     ability_entry ABIL_ZIN_VITALISATION ''Vitalisation'' 2 (scaling_cost_permille 0) 0 (generic_cost_num 1) abflag_NONE,
     ability_entry ABIL_ZIN_IMPRISON ''Imprison'' 5 (scaling_cost_permille 0) 125 (generic_cost_num 4) abflag_NONE,
     ability_entry ABIL_ZIN_SANCTUARY ''Sanctuary'' 7 (scaling_cost_permille 0) 150 (generic_cost_num 15) abflag_NONE,
     ability_entry ABIL_ZIN_CURE_ALL_MUTATIONS ''Cure All Mutations'' 0 (scaling_cost_permille 0) 0 (generic_cost_num 0) abflag_NONE,
     ability_entry ABIL_ZIN_DONATE_GOLD ''Donate Gold'' 0 (scaling_cost_permille 0) 0 (generic_cost_num 0) abflag_NONE,
     ability_entry ABIL_TSO_DIVINE_SHIELD ''Divine Shield'' 3 (scaling_cost_permille 0) 50 (generic_cost_num 2) abflag_NONE,
     ability_entry ABIL_TSO_CLEANSING_FLAME ''Cleansing Flame'' 5 (scaling_cost_permille 0) 100 (generic_cost_num 2) abflag_NONE,
     ability_entry ABIL_TSO_SUMMON_DIVINE_WARRIOR ''Summon Divine Warrior'' 8 (scaling_cost_permille 0) 150 (generic_cost_num 5) abflag_NONE,
     ability_entry ABIL_TSO_BLESS_WEAPON ''Brand Weapon With Holy Wrath'' 0 (scaling_cost_permille 0) 0 (generic_cost_num 0) abflag_NONE,
     ability_entry ABIL_KIKU_RECEIVE_CORPSES ''Receive Corpses'' 3 (scaling_cost_permille 0) 50 (generic_cost_num 2) abflag_NONE,
     ability_entry ABIL_KIKU_TORMENT ''Torment'' 4 (scaling_cost_permille 0) 0 (generic_cost_num 8) abflag_NONE,
     ability_entry ABIL_KIKU_GIFT_NECRONOMICON ''Receive Necronomicon'' 0 (scaling_cost_permille 0) 0 (generic_cost_num 0) abflag_NONE,
     ability_entry ABIL_KIKU_BLESS_WEAPON ''Brand Weapon With Pain'' 0 (scaling_cost_permille 0) 0 (generic_cost_num 0) abflag_PAIN,
     ability_entry ABIL_YRED_INJURY_MIRROR ''Injury Mirror'' 0 (scaling_cost_permille 0) 0 (generic_cost_num 0) abflag_PIETY,
     ability_entry ABIL_YRED_ANIMATE_REMAINS ''Animate Remains'' 2 (scaling_cost_permille 0) 50 (generic_cost_num 0) abflag_NONE,
     ability_entry ABIL_YRED_RECALL_UNDEAD_SLAVES ''Recall Undead Slaves'' 2 (scaling_cost_permille 0) 50 (generic_cost_num 0) abflag_NONE,
     ability_entry ABIL_YRED_ANIMATE_DEAD ''Animate Dead'' 2 (scaling_cost_permille 0) 50 (generic_cost_num 0) abflag_NONE,
     ability_entry ABIL_YRED_DRAIN_LIFE ''Drain Life'' 6 (scaling_cost_permille 0) 200 (generic_cost_num 2) abflag_NONE,
     ability_entry ABIL_YRED_ENSLAVE_SOUL ''Enslave Soul'' 8 (scaling_cost_permille 0) 150 (generic_cost_num 4) abflag_NONE,
     ability_entry ABIL_OKAWARU_HEROISM ''Heroism'' 2 (scaling_cost_permille 0) 50 (generic_cost_num 1) abflag_NONE,
     ability_entry ABIL_OKAWARU_FINESSE ''Finesse'' 5 (scaling_cost_permille 0) 100 (generic_cost_num 3) abflag_NONE,
     ability_entry ABIL_MAKHLEB_MINOR_DESTRUCTION ''Minor Destruction'' 0 (scaling_cost_fixed 1) 20 (generic_cost_num 0) abflag_NONE,
     ability_entry ABIL_MAKHLEB_LESSER_SERVANT_OF_MAKHLEB ''Lesser Servant of Makhleb'' 0 (scaling_cost_fixed 4) 50 (generic_cost_num 2) abflag_HOSTILE,
     ability_entry ABIL_MAKHLEB_MAJOR_DESTRUCTION ''Major Destruction'' 0 (scaling_cost_fixed 6) 100 (generic_cost_range 0 1 1) abflag_NONE,
     ability_entry ABIL_MAKHLEB_GREATER_SERVANT_OF_MAKHLEB ''Greater Servant of Makhleb'' 0 (scaling_cost_fixed 10) 100 (generic_cost_num 5) abflag_HOSTILE,
     ability_entry ABIL_SIF_MUNA_CHANNEL_ENERGY ''Channel Energy'' 0 (scaling_cost_permille 0) 100 (generic_cost_num 0) abflag_NONE,
     ability_entry ABIL_SIF_MUNA_FORGET_SPELL ''Forget Spell'' 5 (scaling_cost_permille 0) 0 (generic_cost_num 8) abflag_NONE,
     ability_entry ABIL_TROG_BURN_SPELLBOOKS ''Burn Spellbooks'' 0 (scaling_cost_permille 0) 10 (generic_cost_num 0) abflag_NONE,
     ability_entry ABIL_TROG_BERSERK ''Berserk'' 0 (scaling_cost_permille 0) 200 (generic_cost_num 0) abflag_NONE,
     ability_entry ABIL_TROG_REGEN_MR ''Trog's Hand'' 0 (scaling_cost_permille 0) 50 (generic_cost_num 2) abflag_NONE,
     ability_entry ABIL_TROG_BROTHERS_IN_ARMS ''Brothers in Arms'' 0 (scaling_cost_permille 0) 100 (generic_cost_range 5 6 1) abflag_NONE,
     ability_entry ABIL_ELYVILON_LIFESAVING ''Divine Protection'' 0 (scaling_cost_permille 0) 0 (generic_cost_num 0) abflag_NONE,
     ability_entry ABIL_ELYVILON_LESSER_HEALING ''Lesser Healing'' 1 (scaling_cost_permille 0) 100 (generic_cost_range 0 1 1) abflag_CONF_OK,
     ability_entry ABIL_ELYVILON_HEAL_OTHER ''Heal Other'' 2 (scaling_cost_permille 0) 250 (generic_cost_num 2) abflag_NONE,
     ability_entry ABIL_ELYVILON_PURIFICATION ''Purification'' 3 (scaling_cost_permille 0) 300 (generic_cost_num 3) abflag_CONF_OK,
     ability_entry ABIL_ELYVILON_GREATER_HEALING ''Greater Healing'' 2 (scaling_cost_permille 0) 250 (generic_cost_num 3) abflag_CONF_OK,
     ability_entry ABIL_ELYVILON_DIVINE_VIGOUR ''Divine Vigour'' 0 (scaling_cost_permille 0) 600 (generic_cost_num 6) abflag_CONF_OK,
     ability_entry ABIL_LUGONU_ABYSS_EXIT ''Depart the Abyss'' 1 (scaling_cost_permille 0) 150 (generic_cost_num 10) abflag_NONE,
     ability_entry ABIL_LUGONU_BEND_SPACE ''Bend Space'' 1 (scaling_cost_permille 0) 50 (generic_cost_num 0) abflag_PAIN,
     ability_entry ABIL_LUGONU_BANISH ''Banish'' 4 (scaling_cost_permille 0) 200 (generic_cost_range 3 4 1) abflag_NONE,
     ability_entry ABIL_LUGONU_CORRUPT ''Corrupt'' 7 (scaling_cost_fixed 5) 500 (generic_cost_num 10) abflag_NONE,
     ability_entry ABIL_LUGONU_ABYSS_ENTER ''Enter the Abyss'' 9 (scaling_cost_permille 0) 500 (generic_cost_fixed 35) abflag_PAIN,
     ability_entry ABIL_LUGONU_BLESS_WEAPON ''Brand Weapon With Distortion'' 0 (scaling_cost_permille 0) 0 (generic_cost_num 0) abflag_NONE,
     ability_entry ABIL_NEMELEX_TRIPLE_DRAW ''Triple Draw'' 2 (scaling_cost_permille 0) 100 (generic_cost_num 2) abflag_NONE,
     ability_entry ABIL_NEMELEX_DEAL_FOUR ''Deal Four'' 8 (scaling_cost_permille 0) 200 (generic_cost_num 8) abflag_NONE,
     ability_entry ABIL_NEMELEX_STACK_FIVE ''Stack Five'' 5 (scaling_cost_permille 0) 250 (generic_cost_num 10) abflag_NONE,
     ability_entry ABIL_BEOGH_SMITING ''Smiting'' 3 (scaling_cost_permille 0) 80 (generic_cost_fixed 3) abflag_NONE,
     ability_entry ABIL_BEOGH_RECALL_ORCISH_FOLLOWERS ''Recall Orcish Followers'' 2 (scaling_cost_permille 0) 50 (generic_cost_num 0) abflag_NONE,
     ability_entry ABIL_BEOGH_GIFT_ITEM ''Give Item to Named Follower'' 0 (scaling_cost_permille 0) 0 (generic_cost_num 0) abflag_NONE,
     ability_entry ABIL_JIYVA_CALL_JELLY ''Request Jelly'' 2 (scaling_cost_permille 0) 20 (generic_cost_num 1) abflag_NONE,
     ability_entry ABIL_JIYVA_JELLY_PARALYSE ''Jelly Paralyse'' 3 (scaling_cost_permille 0) 0 (generic_cost_num 0) abflag_PIETY,
     ability_entry ABIL_JIYVA_SLIMIFY ''Slimify'' 4 (scaling_cost_permille 0) 100 (generic_cost_num 8) abflag_NONE,
     ability_entry ABIL_JIYVA_CURE_BAD_MUTATION ''Cure Bad Mutation'' 8 (scaling_cost_permille 0) 200 (generic_cost_num 15) abflag_NONE,
     ability_entry ABIL_FEDHAS_EVOLUTION ''Evolution'' 2 (scaling_cost_permille 0) 0 (generic_cost_num 0) abflag_VARIABLE_FRUIT,
     ability_entry ABIL_FEDHAS_SUNLIGHT ''Sunlight'' 2 (scaling_cost_permille 0) 50 (generic_cost_num 0) abflag_NONE,
     ability_entry ABIL_FEDHAS_PLANT_RING ''Growth'' 2 (scaling_cost_permille 0) 0 (generic_cost_num 0) abflag_FRUIT,
     ability_entry ABIL_FEDHAS_SPAWN_SPORES ''Reproduction'' 4 (scaling_cost_permille 0) 100 (generic_cost_num 1) abflag_NONE,
     ability_entry ABIL_FEDHAS_RAIN ''Rain'' 4 (scaling_cost_permille 0) 150 (generic_cost_num 4) abflag_NONE,
     ability_entry ABIL_CHEIBRIADOS_TIME_BEND ''Bend Time'' 3 (scaling_cost_permille 0) 50 (generic_cost_num 1) abflag_NONE,
     ability_entry ABIL_CHEIBRIADOS_DISTORTION ''Temporal Distortion'' 4 (scaling_cost_permille 0) 200 (generic_cost_num 3) abflag_INSTANT,
     ability_entry ABIL_CHEIBRIADOS_SLOUCH ''Slouch'' 5 (scaling_cost_permille 0) 100 (generic_cost_num 8) abflag_NONE,
     ability_entry ABIL_CHEIBRIADOS_TIME_STEP ''Step From Time'' 10 (scaling_cost_permille 0) 200 (generic_cost_num 10) abflag_NONE,
     ability_entry ABIL_ASHENZARI_SCRYING ''Scrying'' 4 (scaling_cost_permille 0) 50 (generic_cost_num 2) abflag_INSTANT,
     ability_entry ABIL_ASHENZARI_TRANSFER_KNOWLEDGE ''Transfer Knowledge'' 0 (scaling_cost_permille 0) 0 (generic_cost_num 10) abflag_NONE,
     ability_entry ABIL_ASHENZARI_END_TRANSFER ''End Transfer Knowledge'' 0 (scaling_cost_permille 0) 0 (generic_cost_num 0) abflag_NONE,
     ability_entry ABIL_DITHMENOS_SHADOW_STEP ''Shadow Step'' 4 (scaling_cost_permille 0) 0 (generic_cost_num 4) abflag_NONE,
     ability_entry ABIL_DITHMENOS_SHADOW_FORM ''Shadow Form'' 9 (scaling_cost_permille 0) 0 (generic_cost_num 10) abflag_SKILL_DRAIN,
     ability_entry ABIL_RU_DRAW_OUT_POWER ''Draw Out Power'' 0 (scaling_cost_permille 0) 0 (generic_cost_num 0) (abflag_EXHAUSTION OR abflag_SKILL_DRAIN OR abflag_CONF_OK),
     ability_entry ABIL_RU_POWER_LEAP ''Power Leap'' 5 (scaling_cost_permille 0) 0 (generic_cost_num 0) abflag_EXHAUSTION,
     ability_entry ABIL_RU_APOCALYPSE ''Apocalypse'' 8 (scaling_cost_permille 0) 0 (generic_cost_num 0) (abflag_EXHAUSTION OR abflag_SKILL_DRAIN),
     ability_entry ABIL_RU_SACRIFICE_PURITY ''Sacrifice Purity'' 0 (scaling_cost_permille 0) 0 (generic_cost_num 0) abflag_SACRIFICE,
     ability_entry ABIL_RU_SACRIFICE_WORDS ''Sacrifice Words'' 0 (scaling_cost_permille 0) 0 (generic_cost_num 0) abflag_SACRIFICE,
     ability_entry ABIL_RU_SACRIFICE_DRINK ''Sacrifice Drink'' 0 (scaling_cost_permille 0) 0 (generic_cost_num 0) abflag_SACRIFICE,
     ability_entry ABIL_RU_SACRIFICE_ESSENCE ''Sacrifice Essence'' 0 (scaling_cost_permille 0) 0 (generic_cost_num 0) abflag_SACRIFICE,
     ability_entry ABIL_RU_SACRIFICE_HEALTH ''Sacrifice Health'' 0 (scaling_cost_permille 0) 0 (generic_cost_num 0) abflag_SACRIFICE,
     ability_entry ABIL_RU_SACRIFICE_STEALTH ''Sacrifice Stealth'' 0 (scaling_cost_permille 0) 0 (generic_cost_num 0) abflag_SACRIFICE,
     ability_entry ABIL_RU_SACRIFICE_ARTIFICE ''Sacrifice Artifice'' 0 (scaling_cost_permille 0) 0 (generic_cost_num 0) abflag_SACRIFICE,
     ability_entry ABIL_RU_SACRIFICE_LOVE ''Sacrifice Love'' 0 (scaling_cost_permille 0) 0 (generic_cost_num 0) abflag_SACRIFICE,
     ability_entry ABIL_RU_SACRIFICE_COURAGE ''Sacrifice Courage'' 0 (scaling_cost_permille 0) 0 (generic_cost_num 0) abflag_SACRIFICE,
     ability_entry ABIL_RU_SACRIFICE_ARCANA ''Sacrifice Arcana'' 0 (scaling_cost_permille 0) 0 (generic_cost_num 0) abflag_SACRIFICE,
     ability_entry ABIL_RU_SACRIFICE_NIMBLENESS ''Sacrifice Nimbleness'' 0 (scaling_cost_permille 0) 0 (generic_cost_num 0) abflag_SACRIFICE,
     ability_entry ABIL_RU_SACRIFICE_DURABILITY ''Sacrifice Durability'' 0 (scaling_cost_permille 0) 0 (generic_cost_num 0) abflag_SACRIFICE,
     ability_entry ABIL_RU_SACRIFICE_HAND ''Sacrifice a Hand'' 0 (scaling_cost_permille 0) 0 (generic_cost_num 0) abflag_SACRIFICE,
     ability_entry ABIL_RU_SACRIFICE_EXPERIENCE ''Sacrifice Experience'' 0 (scaling_cost_permille 0) 0 (generic_cost_num 0) abflag_SACRIFICE,
     ability_entry ABIL_RU_SACRIFICE_SKILL ''Sacrifice Skill'' 0 (scaling_cost_permille 0) 0 (generic_cost_num 0) abflag_SACRIFICE,
     ability_entry ABIL_RU_SACRIFICE_EYE ''Sacrifice an Eye'' 0 (scaling_cost_permille 0) 0 (generic_cost_num 0) abflag_SACRIFICE,
     ability_entry ABIL_RU_SACRIFICE_RESISTANCE ''Sacrifice Resistance'' 0 (scaling_cost_permille 0) 0 (generic_cost_num 0) abflag_SACRIFICE,
     ability_entry ABIL_RU_REJECT_SACRIFICES ''Reject Sacrifices'' 0 (scaling_cost_permille 0) 0 (generic_cost_num 0) abflag_NONE,
     ability_entry ABIL_GOZAG_POTION_PETITION ''Potion Petition'' 0 (scaling_cost_permille 0) 0 (generic_cost_num 0) abflag_GOLD,
     ability_entry ABIL_GOZAG_CALL_MERCHANT ''Call Merchant'' 0 (scaling_cost_permille 0) 0 (generic_cost_num 0) abflag_GOLD,
     ability_entry ABIL_GOZAG_BRIBE_BRANCH ''Bribe Branch'' 0 (scaling_cost_permille 0) 0 (generic_cost_num 0) abflag_GOLD,
     ability_entry ABIL_QAZLAL_UPHEAVAL ''Upheaval'' 4 (scaling_cost_permille 0) 0 (generic_cost_num 3) abflag_NONE,
     ability_entry ABIL_QAZLAL_ELEMENTAL_FORCE ''Elemental Force'' 6 (scaling_cost_permille 0) 0 (generic_cost_num 6) abflag_NONE,
     ability_entry ABIL_QAZLAL_DISASTER_AREA ''Disaster Area'' 7 (scaling_cost_permille 0) 0 (generic_cost_num 10) abflag_NONE,
     ability_entry ABIL_PAKELLAS_DEVICE_SURGE ''Device Surge'' 0 (scaling_cost_permille 0) 100 (generic_cost_fixed 1) (abflag_VARIABLE_MP OR abflag_INSTANT),
     ability_entry ABIL_PAKELLAS_QUICK_CHARGE ''Quick Charge'' 0 (scaling_cost_permille 0) 100 (generic_cost_num 2) abflag_NONE,
     ability_entry ABIL_PAKELLAS_SUPERCHARGE ''Supercharge'' 0 (scaling_cost_permille 0) 0 (generic_cost_num 0) abflag_NONE,
     ability_entry ABIL_STOP_RECALL ''Stop Recall'' 0 (scaling_cost_permille 0) 0 (generic_cost_num 0) abflag_NONE,
     ability_entry ABIL_RENOUNCE_RELIGION ''Renounce Religion'' 0 (scaling_cost_permille 0) 0 (generic_cost_num 0) abflag_NONE,
     ability_entry ABIL_CONVERT_TO_BEOGH ''Convert to Beogh'' 0 (scaling_cost_permille 0) 0 (generic_cost_num 0) abflag_NONE]"

text \<open>\<open>get_ability_def\<close>: the first entry with the identity, else \<open>Ability_List[0]\<close>.\<close>

fun find_ability_def :: "ability_def list \<Rightarrow> ability_type \<Rightarrow> ability_def option" where
  "find_ability_def [] abil = None"
| "find_ability_def (ab_def # rest) abil =
     (if ability ab_def = abil then Some ab_def else find_ability_def rest abil)"

definition get_ability_def :: "ability_type \<Rightarrow> ability_def" where
  "get_ability_def abil =
     (case find_ability_def Ability_List abil of
        Some ab_def \<Rightarrow> ab_def
      | None \<Rightarrow> Ability_List ! 0)"

definition ability_name :: "ability_type \<Rightarrow> string" where
  "ability_name abil = name (get_ability_def abil)"

text \<open>The rule in the spec's words, for comparison with \<open>scaling_cost::cost\<close>: a negative
  stored magnitude is the fixed cost \<open>-magnitude\<close>, otherwise the cost is
  \<open>ceil(magnitude * current_max / 1000)\<close>.\<close>

definition scaling_cost_cost_spec :: "scaling_cost \<Rightarrow> int \<Rightarrow> int" where
  "scaling_cost_cost_spec c mx =
     (if val c < 0 then - val c else - ((- (val c * mx)) div 1000))"

subsection \<open>The actor state\<close>

text \<open>
  Modelled from the spec: the enumerations below are declared in headers that are not
  available here. The spec lists what they index among the accessors of the actor state
  (species, form and mutation-level queries, trained-skill levels, the table of active
  durations, the allegiance). Each type has the enumerators that the ability module names
  and one further constructor for all the others.
\<close>

datatype species_type =
    SP_FORMICID | SP_FELID | SP_DEEP_DWARF | SP_VAMPIRE | SP_TENGU
  | SP_BASE_DRACONIAN | SP_RED_DRACONIAN | SP_DJINNI | SP_OTHER nat

datatype transformation =
    TRAN_NONE | TRAN_BAT | TRAN_DRAGON | TRAN_TREE | TRAN_SHADOW | TRAN_OTHER nat

datatype god_type =
    GOD_NO_GOD | GOD_ZIN | GOD_SHINING_ONE | GOD_KIKUBAAQUDGHA | GOD_YREDELEMNUL
  | GOD_MAKHLEB | GOD_LUGONU | GOD_BEOGH | GOD_JIYVA | GOD_RU | GOD_PAKELLAS | GOD_OTHER nat

datatype mutation_type =
    MUT_MUMMY_RESTORATION | MUT_SPIT_POISON | MUT_TENGU_FLIGHT | MUT_BIG_WINGS
  | MUT_HURL_HELLFIRE | MUT_BLINK | MUT_NO_ARTIFICE | MUT_OTHER nat

datatype skill_type = SK_EVOCATIONS | SK_INVOCATIONS | SK_NECROMANCY | SK_OTHER nat

datatype duration_type =
    DUR_TRANSFORMATION | DUR_SONG_OF_SLAYING | DUR_INVIS | DUR_BREATH_WEAPON
  | DUR_POISONING | DUR_CONF | DUR_SLOW | DUR_WEAK | DUR_OTHER nat

datatype attribute_type =
    ATTR_PERM_FLIGHT | ATTR_DELAYED_FIREBALL | ATTR_INVIS_UNCANCELLABLE
  | ATTR_FLIGHT_UNCANCELLABLE | ATTR_OTHER nat

text \<open>
  The ability module asks the rest of the game a large number of yes/no questions through
  functions and members that are implemented elsewhere. The state records the
  answer to each of them. \<open>you_query\<close> names members of the player object \<open>you\<close>
  (\<open>you_can_go_berserk\<close> is \<open>you.can_go_berserk(true)\<close>, \<open>you_can_go_berserk_quiet\<close> is
  \<open>you.can_go_berserk(true, false, true)\<close>, \<open>you_strength_at_max\<close> is
  \<open>you.strength(false) == you.max_strength()\<close>, and so on).
\<close>

datatype you_query =
    you_berserk | you_confused | you_is_lifeless_undead | you_undead_state | you_airborne
  | you_racial_permanent_flight | you_permanent_flight | you_evokable_berserk
  | you_evokable_invis | you_evokable_flight | you_transform_uncancellable
  | you_recall_list_empty | you_petrifying | you_can_go_berserk | you_can_go_berserk_quiet
  | you_no_tele_reason_empty | you_wearing_ego_flying | you_scan_artefacts_blink
  | you_scan_artefacts_fog | you_strength_at_max | you_intel_at_max | you_dex_at_max

text \<open>
  \<open>world_query\<close> names free functions and global state: \<open>in_good_standing_yred_2\<close> is
  \<open>in_good_standing(GOD_YREDELEMNUL, 2)\<close>, \<open>silenced_you_pos\<close> is \<open>silenced(you.pos())\<close>,
  \<open>hunger_state_le_satiated\<close> is \<open>you.hunger_state <= HS_SATIATED\<close>,
  \<open>level_state_beogh\<close> is \<open>env.level_state & LSTATE_BEOGH\<close>, \<open>dragon_form_fire_dragon\<close> is
  \<open>dragon_form_dragon_type() == MONS_FIRE_DRAGON\<close>, \<open>is_feat_dangerous_here\<close> is
  \<open>is_feat_dangerous(grd(you.pos()), false, true)\<close>, \<open>feat_dangerous_for_form_none\<close> is
  \<open>feat_dangerous_for_form(TRAN_NONE, env.grid(you.pos()))\<close>, \<open>tag_major_version_34\<close> is
  the compile-time test \<open>TAG_MAJOR_VERSION == 34\<close>.
\<close>

datatype world_query =
    in_good_standing_yred_2 | silenced_you_pos | can_do_capstone_ability
  | player_under_penance | game_is_sprint | species_is_draconian | form_changed_physiology
  | hunger_state_le_satiated | hunger_state_le_starving | level_state_beogh
  | can_convert_to_beogh | dragon_form_fire_dragon | is_feat_dangerous_here
  | check_form_stat_safety_bat | check_form_stat_safety_none | feat_dangerous_for_form_none
  | flight_allowed | you_foodless | tag_major_version_34

text \<open>
  \<open>check_query\<close> names the questions of the per-ability switch of
  \<open>_check_ability_possible\<close>: \<open>zin_check_recite_to_monsters_1\<close> is
  \<open>zin_check_recite_to_monsters(quiet) == 1\<close>, \<open>fedhas_check_corpse_spores_pos\<close> is
  \<open>fedhas_check_corpse_spores(quiet) > 0\<close>, \<open>yesno_confirm\<close> is the player's answer to the
  "Really use ...?" prompt, and the others are the calls of the same name.
\<close>

datatype check_query =
    zin_check_able_to_recite | zin_check_recite_to_monsters_1 | how_mutated
  | sanctuary_time | player_rotted | player_in_branch_abyss | is_level_incorruptible
  | all_skills_maxed | fedhas_check_evolve_flora | fedhas_check_corpse_spores_pos
  | berserk_check_wielded_weapon | cloud_at_you_pos | gozag_setup_potion_petition
  | gozag_setup_call_merchant | gozag_check_bribe_branch | pakellas_check_quick_charge
  | yesno_confirm

text \<open>
  Modelled from the spec: the mutators of the actor state (\<open>dec_mp\<close>, \<open>rot_mp\<close>,
  \<open>dec_hp\<close>, \<open>rot_hp\<close>, \<open>make_hungry\<close>, \<open>lose_piety\<close>) and the bookkeeping calls
  (\<open>practise\<close>, \<open>count_action\<close>, \<open>crawl_state.zero_turns_taken\<close>, \<open>update_turn_count\<close>)
  are implemented elsewhere. The spec says that the core reads the actor state and issues
  mutation requests to it without owning it; the state therefore keeps the sequence of
  requests issued, in order.
\<close>

datatype request =
    dec_mp int | rot_mp int | dec_hp int | rot_hp int | make_hungry int | lose_piety int
  | practise ability_type | count_action bool ability_type
  | zero_turns_taken | update_turn_count


text \<open>
  The state. \<open>ability_letter_table\<close> is the fixed vector of 52 identities, read and written at
  indices 0 to 51 only. \<open>available_sacrifices\<close> is \<open>you.props[AVAILABLE_SAC_KEY]\<close>
  (\<open>None\<close> when the key does not exist), \<open>god_powers\<close> is \<open>get_god_powers(you.religion)\<close> as
  pairs of rank and identity, \<open>draconian_breath\<close> is \<open>draconian_breath(you.species)\<close>,
  \<open>real_mp\<close> is \<open>get_real_mp(false)\<close>, \<open>brdepth_abyss\<close> and \<open>brdepth_here\<close> are
  \<open>brdepth[BRANCH_ABYSS]\<close> and \<open>brdepth[you.where_are_you]\<close>. A \<open>text_pattern\<close> of the
  options is the predicate that its \<open>matches\<close> computes.
\<close>

type_synonym text_pattern = "string \<Rightarrow> bool"

record game =
  species :: species_type
  form :: transformation
  religion :: god_type
  experience_level :: int
  piety :: int
  piety_rank :: int
  piety_breakpoint :: "int \<Rightarrow> int"
  hunger :: int
  hp_max :: int
  magic_points :: int
  real_mp :: int
  enough_mp :: "int \<Rightarrow> bool"
  enough_hp :: "int \<Rightarrow> bool"
  transfer_skill_points :: int
  spell_no :: int
  gold :: int
  disease :: int
  elapsed_time :: int
  elapsed_time_at_last_input :: int
  turn_is_over :: bool
  ability_letter_table :: "int \<Rightarrow> ability_type"
  available_sacrifices :: "int list option"
  god_powers :: "(int \<times> ability_type) list"
  draconian_breath :: ability_type
  duration :: "duration_type \<Rightarrow> int"
  attribute :: "attribute_type \<Rightarrow> int"
  mutation_level :: "mutation_type \<Rightarrow> int"
  skill :: "skill_type \<Rightarrow> int \<Rightarrow> int"
  brdepth_abyss :: int
  brdepth_here :: int
  ru_sac_xp_levels :: int
  you_q :: "you_query \<Rightarrow> bool"
  world_q :: "world_query \<Rightarrow> bool"
  check_q :: "check_query \<Rightarrow> bool"
  auto_ability_letters :: "(text_pattern \<times> string) list"
  confirm_action :: "text_pattern list"
  requests :: "request list"

definition issue :: "request \<Rightarrow> game \<Rightarrow> game" where
  "issue r st = st\<lparr>requests := requests st @ [r]\<rparr>"

text \<open>Failures that end the program: a violated \<open>ASSERT\<close> and \<open>die\<close>.\<close>

datatype error = AssertionFailure | Die

datatype spret_type = SPRET_ABORT | SPRET_FAIL | SPRET_SUCCESS | SPRET_NONE

record talent =
  which :: ability_type
  hotkey :: int
  fail :: int
  is_invocation :: bool

subsection \<open>Letters and slots\<close>

text \<open>
  Modelled from the spec: \<open>index_to_letter\<close>, \<open>letter_to_index\<close>, \<open>isaalpha\<close> and
  \<open>lowercase_string\<close> are implemented elsewhere. The spec speaks of a fixed-size slot
  table that maps input keys to identities, with the faith actions at the start of the
  table; the comments of the ability module fix the correspondence (52 slots, indices 0 to 51,
  \<open>a\<close> to \<open>e\<close> the first five, \<open>Z\<close> the last). A letter is the integer code of its
  character. An index outside the table and a character that is no letter end the program.
\<close>

definition index_to_letter :: "int \<Rightarrow> error + int" where
  "index_to_letter the_index =
     (if 0 \<le> the_index \<and> the_index < 52
      then Inr (if the_index < 26 then 97 + the_index else 65 + (the_index - 26))
      else Inl AssertionFailure)"

definition letter_to_index :: "char \<Rightarrow> error + int" where
  "letter_to_index the_letter =
     (let c = (of_char the_letter :: int) in
      if 97 \<le> c \<and> c \<le> 122 then Inr (c - 97)
      else if 65 \<le> c \<and> c \<le> 90 then Inr (c - 65 + 26)
      else Inl Die)"

definition isaalpha :: "char \<Rightarrow> bool" where
  "isaalpha ch =
     (let c = (of_char ch :: int) in (97 \<le> c \<and> c \<le> 122) \<or> (65 \<le> c \<and> c \<le> 90))"

definition lowercase_string :: "string \<Rightarrow> string" where
  "lowercase_string s =
     map (\<lambda>ch. let c = (of_char ch :: nat) in
                if 65 \<le> c \<and> c \<le> 90 then char_of (c + 32) else ch) s"

subsection \<open>Placeholders\<close>

text \<open>\<open>fixup_ability\<close>: the \<open>switch\<close> over the identity, case by case.\<close>

definition fixup_ability :: "game \<Rightarrow> ability_type \<Rightarrow> ability_type" where
  "fixup_ability st a =
     (if a = ABIL_YRED_ANIMATE_REMAINS
       then (if world_q st in_good_standing_yred_2 then ABIL_NON_ABILITY else a)
      else if a \<in> {ABIL_YRED_RECALL_UNDEAD_SLAVES, ABIL_BEOGH_RECALL_ORCISH_FOLLOWERS}
       then (if \<not> you_q st you_recall_list_empty then ABIL_STOP_RECALL else a)
      else if a \<in> {ABIL_EVOKE_BERSERK, ABIL_TROG_BERSERK}
       then (if you_q st you_is_lifeless_undead \<or> species st = SP_FORMICID
             then ABIL_NON_ABILITY else a)
      else if a \<in> {ABIL_BLINK, ABIL_EVOKE_BLINK}
       then (if species st = SP_FORMICID then ABIL_NON_ABILITY else a)
      else if a \<in> {ABIL_LUGONU_ABYSS_EXIT, ABIL_LUGONU_ABYSS_ENTER}
       then (if brdepth_abyss st = - 1 then ABIL_NON_ABILITY else a)
      else if a \<in> {ABIL_TSO_BLESS_WEAPON, ABIL_KIKU_BLESS_WEAPON, ABIL_LUGONU_BLESS_WEAPON}
       then (if species st = SP_FELID then ABIL_NON_ABILITY else a)
      else a)"

subsection \<open>Slot bookkeeping\<close>

text \<open>\<open>_lookup_ability_slot\<close>: the first slot from 0 to 51 whose entry, after
  \<open>fixup_ability\<close>, is the identity; \<open>-1\<close> if there is none.\<close>

definition lookup_ability_slot :: "game \<Rightarrow> ability_type \<Rightarrow> int" where
  "lookup_ability_slot st abil =
     (case find (\<lambda>slot. fixup_ability st (ability_letter_table st slot) = abil) [0..51] of
        Some slot \<Rightarrow> slot
      | None \<Rightarrow> - 1)"

definition set_slot :: "int \<Rightarrow> ability_type \<Rightarrow> game \<Rightarrow> game" where
  "set_slot slot abil st = st\<lparr>ability_letter_table := (ability_letter_table st)(slot := abil)\<rparr>"

text \<open>\<open>swap_ability_slots\<close> with \<open>silent = true\<close> (the only use in the ability module).\<close>

definition swap_ability_slots :: "int \<Rightarrow> int \<Rightarrow> game \<Rightarrow> game" where
  "swap_ability_slots index1 index2 st =
     (let tmp = ability_letter_table st index2;
          st1 = set_slot index2 (ability_letter_table st index1) st
      in set_slot index1 tmp st1)"

text \<open>
  \<open>auto_assign_ability_slot\<close>. The inner loop runs over the characters of one mapping and
  carries the flag \<open>overwrite\<close>, which the source declares outside both loops; it yields the
  result of a \<open>return\<close>, if one was reached, and the flag.
\<close>

fun auto_assign_chars ::
  "game \<Rightarrow> int \<Rightarrow> ability_type \<Rightarrow> text_pattern \<Rightarrow> string \<Rightarrow> bool
   \<Rightarrow> error + ((int \<times> game) option \<times> bool)" where
  "auto_assign_chars st slot abil_type pat [] overwrite = Inr (None, overwrite)"
| "auto_assign_chars st slot abil_type pat (i # rest) overwrite =
     (if i = CHR ''+'' then auto_assign_chars st slot abil_type pat rest True
      else if i = CHR ''-'' then auto_assign_chars st slot abil_type pat rest False
      else if isaalpha i then
        (case letter_to_index i of
           Inl e \<Rightarrow> Inl e
         | Inr index \<Rightarrow>
             (let existing_ability = ability_letter_table st index in
              if existing_ability = ABIL_NON_ABILITY \<or> existing_ability = abil_type then
                (let st1 = set_slot index abil_type st;
                     st2 = (if slot \<noteq> index then set_slot slot ABIL_NON_ABILITY st1 else st1)
                 in Inr (Some (index, st2), overwrite))
              else if overwrite then
                (if pat (lowercase_string (ability_name existing_ability))
                 then auto_assign_chars st slot abil_type pat rest overwrite
                 else Inr (Some (index,
                        swap_ability_slots slot index (set_slot slot abil_type st)), overwrite))
              else auto_assign_chars st slot abil_type pat rest overwrite))
      else auto_assign_chars st slot abil_type pat rest overwrite)"

fun auto_assign_mappings ::
  "game \<Rightarrow> int \<Rightarrow> ability_type \<Rightarrow> string \<Rightarrow> (text_pattern \<times> string) list \<Rightarrow> bool
   \<Rightarrow> error + (int \<times> game)" where
  "auto_assign_mappings st slot abil_type abilname [] overwrite = Inr (slot, st)"
| "auto_assign_mappings st slot abil_type abilname (mapping # rest) overwrite =
     (if \<not> fst mapping abilname
      then auto_assign_mappings st slot abil_type abilname rest overwrite
      else
        (case auto_assign_chars st slot abil_type (fst mapping) (snd mapping) overwrite of
           Inl e \<Rightarrow> Inl e
         | Inr (Some result, ow) \<Rightarrow> Inr result
         | Inr (None, ow) \<Rightarrow> auto_assign_mappings st slot abil_type abilname rest ow))"

definition auto_assign_ability_slot :: "int \<Rightarrow> game \<Rightarrow> error + (int \<times> game)" where
  "auto_assign_ability_slot slot st =
     (let abil_type = ability_letter_table st slot;
          abilname = lowercase_string (ability_name abil_type)
      in auto_assign_mappings st slot abil_type abilname (auto_ability_letters st) False)"

text \<open>\<open>find_ability_slot\<close>. The \<open>switch\<close> that moves \<open>first_slot\<close> for some identities
  comes first as a function of its own.\<close>

definition preferred_first_slot :: "ability_type \<Rightarrow> int \<Rightarrow> error + int" where
  "preferred_first_slot abil first_slot =
     (if abil = ABIL_ELYVILON_LIFESAVING then letter_to_index CHR ''p''
      else if abil = ABIL_KIKU_GIFT_NECRONOMICON then letter_to_index CHR ''N''
      else if abil \<in> {ABIL_ZIN_CURE_ALL_MUTATIONS, ABIL_TSO_BLESS_WEAPON,
          ABIL_KIKU_BLESS_WEAPON, ABIL_LUGONU_BLESS_WEAPON, ABIL_PAKELLAS_SUPERCHARGE}
       then letter_to_index CHR ''W''
      else if abil = ABIL_CONVERT_TO_BEOGH then letter_to_index CHR ''Y''
      else if abil \<in> {ABIL_RU_SACRIFICE_PURITY, ABIL_RU_SACRIFICE_WORDS,
          ABIL_RU_SACRIFICE_DRINK, ABIL_RU_SACRIFICE_ESSENCE, ABIL_RU_SACRIFICE_HEALTH,
          ABIL_RU_SACRIFICE_STEALTH, ABIL_RU_SACRIFICE_ARTIFICE, ABIL_RU_SACRIFICE_LOVE,
          ABIL_RU_SACRIFICE_COURAGE, ABIL_RU_SACRIFICE_ARCANA, ABIL_RU_SACRIFICE_NIMBLENESS,
          ABIL_RU_SACRIFICE_DURABILITY, ABIL_RU_SACRIFICE_HAND,
          ABIL_RU_SACRIFICE_EXPERIENCE, ABIL_RU_SACRIFICE_SKILL, ABIL_RU_SACRIFICE_EYE,
          ABIL_RU_SACRIFICE_RESISTANCE, ABIL_RU_REJECT_SACRIFICES}
       then letter_to_index CHR ''G''
      else Inr first_slot)"

definition find_ability_slot :: "ability_type \<Rightarrow> char \<Rightarrow> game \<Rightarrow> error + (int \<times> game)" where
  "find_ability_slot abil firstletter st =
     (let had_slot = lookup_ability_slot st abil in
      if had_slot > - 1 then Inr (had_slot, st)
      else
        (case letter_to_index firstletter of
           Inl e \<Rightarrow> Inl e
         | Inr first_slot0 \<Rightarrow>
        (case letter_to_index CHR ''f'' of
           Inl e \<Rightarrow> Inl e
         | Inr f_index \<Rightarrow>
            (let first_slot1 =
                   (if species st = SP_BASE_DRACONIAN \<and> first_slot0 \<ge> f_index
                    then first_slot0 + 1 else first_slot0)
             in if \<not> first_slot1 < 52 then Inl AssertionFailure
                else
                  (case preferred_first_slot abil first_slot1 of
                     Inl e \<Rightarrow> Inl e
                   | Inr first_slot \<Rightarrow>
                      (case find (\<lambda>slot. ability_letter_table st slot = ABIL_NON_ABILITY)
                              [first_slot..51] of
                         Some slot \<Rightarrow> auto_assign_ability_slot slot (set_slot slot abil st)
                       | None \<Rightarrow>
                          (case find (\<lambda>slot. ability_letter_table st slot = ABIL_NON_ABILITY)
                                  (rev [0..first_slot - 1]) of
                             Some slot \<Rightarrow> auto_assign_ability_slot slot (set_slot slot abil st)
                           | None \<Rightarrow> Inr (- 1, st))))))))"

subsection \<open>Talents\<close>

text \<open>The \<open>switch\<close> of \<open>get_talent\<close> over the identity it was given: the raw failure
  value and the invocation flag, before the value is limited to the range 0 to 100. The
  \<open>default\<close> branch leaves \<open>-1\<close>.\<close>

definition talent_failure :: "game \<Rightarrow> ability_type \<Rightarrow> int \<times> bool" where
  "talent_failure st a =
     (if a \<in> {ABIL_DELAYED_FIREBALL, ABIL_MUMMY_RESTORATION, ABIL_STOP_SINGING}
       then (0, False)
      else if a = ABIL_SPIT_POISON
       then (40 - 10 * mutation_level st MUT_SPIT_POISON - experience_level st, False)
      else if a \<in> {ABIL_BREATHE_FIRE, ABIL_BREATHE_FROST, ABIL_BREATHE_POISON,
          ABIL_SPIT_ACID, ABIL_BREATHE_LIGHTNING, ABIL_BREATHE_POWER,
          ABIL_BREATHE_STICKY_FLAME, ABIL_BREATHE_MEPHITIC}
       then ((if form st = TRAN_DRAGON then 30 - experience_level st - 20 else 30 - experience_level st), False)
      else if a = ABIL_BREATHE_STEAM
       then ((if form st = TRAN_DRAGON then 20 - experience_level st - 20 else 20 - experience_level st), False)
      else if a = ABIL_FLY
       then (42 - (3 * experience_level st), False)
      else if a = ABIL_TRAN_BAT
       then (45 - (2 * experience_level st), False)
      else if a = ABIL_RECHARGING
       then (45 - (2 * experience_level st), False)
      else if a \<in> {ABIL_DIG, ABIL_SHAFT_SELF}
       then (0, False)
      else if a = ABIL_HELLFIRE
       then (50 - experience_level st, False)
      else if a = ABIL_BLINK
       then (48 - (17 * mutation_level st MUT_BLINK) - c_div (experience_level st) 2, False)
      else if a = ABIL_END_TRANSFORMATION
       then (0, False)
      else if a = ABIL_EVOKE_TURN_INVISIBLE
       then (60 - skill st SK_EVOCATIONS 2, False)
      else if a \<in> {ABIL_EVOKE_TURN_VISIBLE, ABIL_STOP_FLYING}
       then (0, False)
      else if a \<in> {ABIL_EVOKE_FLIGHT, ABIL_EVOKE_BLINK}
       then (40 - skill st SK_EVOCATIONS 2, False)
      else if a \<in> {ABIL_EVOKE_BERSERK, ABIL_EVOKE_FOG}
       then (50 - skill st SK_EVOCATIONS 2, False)
      else if a \<in> {ABIL_ZIN_CURE_ALL_MUTATIONS, ABIL_ZIN_DONATE_GOLD,
          ABIL_KIKU_BLESS_WEAPON, ABIL_KIKU_GIFT_NECRONOMICON, ABIL_TSO_BLESS_WEAPON,
          ABIL_LUGONU_BLESS_WEAPON, ABIL_ELYVILON_LIFESAVING, ABIL_TROG_BURN_SPELLBOOKS,
          ABIL_ASHENZARI_TRANSFER_KNOWLEDGE, ABIL_ASHENZARI_END_TRANSFER,
          ABIL_ASHENZARI_SCRYING, ABIL_BEOGH_GIFT_ITEM, ABIL_JIYVA_CALL_JELLY,
          ABIL_JIYVA_CURE_BAD_MUTATION, ABIL_JIYVA_JELLY_PARALYSE,
          ABIL_GOZAG_POTION_PETITION, ABIL_GOZAG_CALL_MERCHANT, ABIL_GOZAG_BRIBE_BRANCH,
          ABIL_RU_DRAW_OUT_POWER, ABIL_RU_POWER_LEAP, ABIL_RU_APOCALYPSE,
          ABIL_RU_SACRIFICE_PURITY, ABIL_RU_SACRIFICE_WORDS, ABIL_RU_SACRIFICE_DRINK,
          ABIL_RU_SACRIFICE_ESSENCE, ABIL_RU_SACRIFICE_HEALTH,
          ABIL_RU_SACRIFICE_STEALTH, ABIL_RU_SACRIFICE_ARTIFICE, ABIL_RU_SACRIFICE_LOVE,
          ABIL_RU_SACRIFICE_COURAGE, ABIL_RU_SACRIFICE_ARCANA,
          ABIL_RU_SACRIFICE_NIMBLENESS, ABIL_RU_SACRIFICE_DURABILITY,
          ABIL_RU_SACRIFICE_HAND, ABIL_RU_SACRIFICE_EXPERIENCE, ABIL_RU_SACRIFICE_SKILL,
          ABIL_RU_SACRIFICE_EYE, ABIL_RU_SACRIFICE_RESISTANCE,
          ABIL_RU_REJECT_SACRIFICES, ABIL_PAKELLAS_SUPERCHARGE, ABIL_STOP_RECALL,
          ABIL_RENOUNCE_RELIGION, ABIL_CONVERT_TO_BEOGH}
       then (0, True)
      else if a = ABIL_TROG_BERSERK
       then (0, True)
      else if a = ABIL_TROG_REGEN_MR
       then (piety_breakpoint st 2 - piety st, True)
      else if a = ABIL_TROG_BROTHERS_IN_ARMS
       then (piety_breakpoint st 5 - piety st, True)
      else if a = ABIL_JIYVA_SLIMIFY
       then (90 - c_div (piety st) 2, True)
      else if a = ABIL_ELYVILON_PURIFICATION
       then (20 - (c_div (piety st) 20) - skill st SK_INVOCATIONS 5, True)
      else if a \<in> {ABIL_ZIN_RECITE, ABIL_BEOGH_RECALL_ORCISH_FOLLOWERS,
          ABIL_OKAWARU_HEROISM, ABIL_ELYVILON_LESSER_HEALING, ABIL_LUGONU_ABYSS_EXIT,
          ABIL_FEDHAS_SUNLIGHT, ABIL_FEDHAS_EVOLUTION, ABIL_DITHMENOS_SHADOW_STEP}
       then (30 - (c_div (piety st) 20) - skill st SK_INVOCATIONS 6, True)
      else if a \<in> {ABIL_YRED_ANIMATE_REMAINS, ABIL_YRED_ANIMATE_DEAD,
          ABIL_YRED_INJURY_MIRROR, ABIL_CHEIBRIADOS_TIME_BEND}
       then (40 - (c_div (piety st) 20) - skill st SK_INVOCATIONS 4, True)
      else if a = ABIL_PAKELLAS_QUICK_CHARGE
       then (40 - (c_div (piety st) 25) - skill st SK_EVOCATIONS 5, True)
      else if a \<in> {ABIL_ZIN_VITALISATION, ABIL_TSO_DIVINE_SHIELD,
          ABIL_BEOGH_SMITING, ABIL_SIF_MUNA_FORGET_SPELL,
          ABIL_MAKHLEB_MINOR_DESTRUCTION, ABIL_MAKHLEB_LESSER_SERVANT_OF_MAKHLEB,
          ABIL_ELYVILON_GREATER_HEALING, ABIL_ELYVILON_HEAL_OTHER,
          ABIL_LUGONU_BEND_SPACE, ABIL_FEDHAS_PLANT_RING, ABIL_QAZLAL_UPHEAVAL}
       then (40 - (c_div (piety st) 20) - skill st SK_INVOCATIONS 5, True)
      else if a = ABIL_KIKU_RECEIVE_CORPSES
       then (40 - (c_div (piety st) 20) - skill st SK_NECROMANCY 5, True)
      else if a = ABIL_SIF_MUNA_CHANNEL_ENERGY
       then (40 - (c_div (piety st) 20) - skill st SK_INVOCATIONS 2, True)
      else if a = ABIL_YRED_RECALL_UNDEAD_SLAVES
       then (50 - (c_div (piety st) 20) - skill st SK_INVOCATIONS 4, True)
      else if a = ABIL_PAKELLAS_DEVICE_SURGE
       then (40 - (c_div (piety st) 20) - skill st SK_EVOCATIONS 5, True)
      else if a \<in> {ABIL_ZIN_IMPRISON, ABIL_LUGONU_BANISH,
          ABIL_CHEIBRIADOS_DISTORTION, ABIL_QAZLAL_ELEMENTAL_FORCE}
       then (60 - (c_div (piety st) 20) - skill st SK_INVOCATIONS 5, True)
      else if a = ABIL_KIKU_TORMENT
       then (60 - (c_div (piety st) 20) - skill st SK_NECROMANCY 5, True)
      else if a \<in> {ABIL_MAKHLEB_MAJOR_DESTRUCTION, ABIL_FEDHAS_SPAWN_SPORES,
          ABIL_YRED_DRAIN_LIFE, ABIL_CHEIBRIADOS_SLOUCH, ABIL_OKAWARU_FINESSE}
       then (60 - (c_div (piety st) 25) - skill st SK_INVOCATIONS 4, True)
      else if a \<in> {ABIL_TSO_CLEANSING_FLAME, ABIL_LUGONU_CORRUPT, ABIL_FEDHAS_RAIN,
          ABIL_QAZLAL_DISASTER_AREA}
       then (70 - (c_div (piety st) 25) - skill st SK_INVOCATIONS 4, True)
      else if a \<in> {ABIL_ZIN_SANCTUARY, ABIL_TSO_SUMMON_DIVINE_WARRIOR,
          ABIL_YRED_ENSLAVE_SOUL, ABIL_ELYVILON_DIVINE_VIGOUR, ABIL_LUGONU_ABYSS_ENTER,
          ABIL_CHEIBRIADOS_TIME_STEP, ABIL_DITHMENOS_SHADOW_FORM}
       then (80 - (c_div (piety st) 25) - skill st SK_INVOCATIONS 4, True)
      else if a = ABIL_MAKHLEB_GREATER_SERVANT_OF_MAKHLEB
       then (90 - (c_div (piety st) 5) - skill st SK_INVOCATIONS 2, True)
      else if a = ABIL_NEMELEX_STACK_FIVE
       then (80 - (c_div (piety st) 25) - skill st SK_EVOCATIONS 4, True)
      else if a = ABIL_NEMELEX_DEAL_FOUR
       then (70 - (c_div (piety st * 2) 45) - c_div (skill st SK_EVOCATIONS 9) 2, True)
      else if a = ABIL_NEMELEX_TRIPLE_DRAW
       then (60 - (c_div (piety st) 20) - skill st SK_EVOCATIONS 5, True)
      else (- 1, False))"

text \<open>\<open>get_talent\<close>. The \<open>ASSERT\<close> at its head ends the program for the sentinel. The call
  of \<open>find_ability_slot\<close> uses the default first letter \<open>f\<close> and may write the slot table.\<close>

definition get_talent :: "ability_type \<Rightarrow> bool \<Rightarrow> game \<Rightarrow> error + (talent \<times> game)" where
  "get_talent a check_confused st =
     (if a = ABIL_NON_ABILITY then Inl AssertionFailure
      else
        (let result_which = fixup_ability st a;
             abil = get_ability_def result_which
         in if check_confused \<and> you_q st you_confused \<and> \<not> testbits (flags abil) abflag_CONF_OK
            then Inr (\<lparr>which = ABIL_NON_ABILITY, hotkey = 0, fail = 0, is_invocation = False\<rparr>, st)
            else
              (case find_ability_slot (ability abil) CHR ''f'' st of
                 Inl e \<Rightarrow> Inl e
               | Inr (index, st1) \<Rightarrow>
                  (case (if index \<ge> 0 then index_to_letter index else Inr 0) of
                     Inl e \<Rightarrow> Inl e
                   | Inr letter \<Rightarrow>
                      (let (failure0, invoc) = talent_failure st1 a;
                           failure1 = (if failure0 < 0 then 0 else failure0);
                           failure2 = (if failure1 > 100 then 100 else failure1)
                       in Inr (\<lparr>which = result_which, hotkey = letter, fail = failure2,
                                is_invocation = invoc\<rparr>, st1))))))"

text \<open>\<open>_add_talent\<close>: the vector grows at its end unless the talent is the sentinel.\<close>

definition add_talent ::
  "ability_type \<Rightarrow> bool \<Rightarrow> talent list \<times> game \<Rightarrow> error + (talent list \<times> game)" where
  "add_talent a check_confused vs =
     (case get_talent a check_confused (snd vs) of
        Inl e \<Rightarrow> Inl e
      | Inr (t, st1) \<Rightarrow>
          Inr (if which t \<noteq> ABIL_NON_ABILITY then fst vs @ [t] else fst vs, st1))"

subsection \<open>Abilities granted by the god\<close>

definition you_worship :: "game \<Rightarrow> god_type \<Rightarrow> bool" where
  "you_worship st god = (religion st = god)"

text \<open>The loop of \<open>get_god_abilities\<close> over \<open>get_god_powers(you.religion)\<close>; the
  \<open>ASSERT\<close> is reached for every power that names an ability, whatever its rank.\<close>

fun god_power_abilities ::
  "game \<Rightarrow> bool \<Rightarrow> bool \<Rightarrow> (int \<times> ability_type) list \<Rightarrow> ability_type list
   \<Rightarrow> error + ability_type list" where
  "god_power_abilities st ignore_piety ignore_penance [] abilities = Inr abilities"
| "god_power_abilities st ignore_piety ignore_penance (god_power # rest) abilities =
     (if snd god_power = ABIL_NON_ABILITY
      then god_power_abilities st ignore_piety ignore_penance rest abilities
      else
        (let abil = fixup_ability st (snd god_power); rank = fst god_power in
         if abil = ABIL_NON_ABILITY then Inl AssertionFailure
         else if (rank \<le> 0
                  \<or> (rank = 7 \<and> world_q st can_do_capstone_ability)
                  \<or> piety_rank st \<ge> rank
                  \<or> ignore_piety)
                 \<and> (\<not> world_q st player_under_penance \<or> rank = - 1 \<or> ignore_penance)
         then god_power_abilities st ignore_piety ignore_penance rest (abilities @ [abil])
         else god_power_abilities st ignore_piety ignore_penance rest abilities))"

definition get_god_abilities :: "bool \<Rightarrow> bool \<Rightarrow> bool \<Rightarrow> game \<Rightarrow> error + ability_type list" where
  "get_god_abilities ignore_silence ignore_piety ignore_penance st =
     (case (if you_worship st GOD_RU
            then (case available_sacrifices st of
                    None \<Rightarrow> Inl AssertionFailure
                  | Some stores \<Rightarrow>
                      Inr (map ABIL stores
                           @ (if stores \<noteq> [] then [ABIL_RU_REJECT_SACRIFICES] else [])))
            else Inr []) of
        Inl e \<Rightarrow> Inl e
      | Inr abilities1 \<Rightarrow>
          (let abilities2 =
                 (if transfer_skill_points st > 0
                  then abilities1 @ [ABIL_ASHENZARI_END_TRANSFER] else abilities1)
           in if \<not> ignore_silence \<and> world_q st silenced_you_pos then Inr abilities2
              else god_power_abilities st ignore_piety ignore_penance (god_powers st)
                     abilities2))"

subsection \<open>The talents on offer\<close>

text \<open>
  \<open>your_talents\<close> is a sequence of guarded calls of \<open>_add_talent\<close>. A call changes only the
  slot table, which no guard reads, so the identities that pass their guards are listed
  first, block by block and in the order of the source: the species, form and mutation
  abilities; the god's abilities followed by renouncing and converting; the abilities that
  come from the dragon form, from a stored fireball, from a song and from items.
\<close>

definition innate_abilities :: "bool \<Rightarrow> game \<Rightarrow> ability_type list" where
  "innate_abilities include_unusable st =
     (if mutation_level st MUT_MUMMY_RESTORATION \<noteq> 0 then [ABIL_MUMMY_RESTORATION] else [])
     @ (if species st = SP_DEEP_DWARF then [ABIL_RECHARGING] else [])
     @ (if species st = SP_FORMICID \<and> (form st \<noteq> TRAN_TREE \<or> include_unusable)
        then [ABIL_DIG]
             @ (if \<not> world_q st game_is_sprint \<or> brdepth_here st > 1
                then [ABIL_SHAFT_SELF] else [])
        else [])
     @ (if mutation_level st MUT_SPIT_POISON = 3 then [ABIL_BREATHE_POISON]
        else if mutation_level st MUT_SPIT_POISON \<noteq> 0 then [ABIL_SPIT_POISON]
        else [])
     @ (if world_q st species_is_draconian
           \<and> (\<not> world_q st form_changed_physiology \<or> form st = TRAN_DRAGON)
           \<and> draconian_breath st \<noteq> ABIL_NON_ABILITY
        then [draconian_breath st] else [])
     @ (if species st = SP_VAMPIRE \<and> experience_level st \<ge> 3
           \<and> world_q st hunger_state_le_satiated \<and> form st \<noteq> TRAN_BAT
        then [ABIL_TRAN_BAT] else [])
     @ (if (mutation_level st MUT_TENGU_FLIGHT \<noteq> 0 \<and> \<not> you_q st you_airborne)
           \<or> (you_q st you_racial_permanent_flight \<and> attribute st ATTR_PERM_FLIGHT = 0
               \<and> (if world_q st tag_major_version_34 then species st \<noteq> SP_DJINNI else True))
        then [ABIL_FLY] else [])
     @ (if attribute st ATTR_PERM_FLIGHT \<noteq> 0 \<and> you_q st you_racial_permanent_flight
        then [ABIL_STOP_FLYING] else [])
     @ (if mutation_level st MUT_HURL_HELLFIRE \<noteq> 0 then [ABIL_HELLFIRE] else [])
     @ (if duration st DUR_TRANSFORMATION \<noteq> 0 \<and> \<not> you_q st you_transform_uncancellable
        then [ABIL_END_TRANSFORMATION] else [])
     @ (if mutation_level st MUT_BLINK \<noteq> 0 then [ABIL_BLINK] else [])"

definition faith_exit_abilities :: "game \<Rightarrow> ability_type list" where
  "faith_exit_abilities st =
     (if \<not> you_worship st GOD_NO_GOD then [ABIL_RENOUNCE_RELIGION] else [])
     @ (if world_q st level_state_beogh \<and> world_q st can_convert_to_beogh
        then [ABIL_CONVERT_TO_BEOGH] else [])"

definition item_abilities :: "game \<Rightarrow> ability_type list" where
  "item_abilities st =
     (if species st \<noteq> SP_RED_DRACONIAN \<and> form st = TRAN_DRAGON
           \<and> world_q st dragon_form_fire_dragon
      then [ABIL_BREATHE_FIRE] else [])
     @ (if attribute st ATTR_DELAYED_FIREBALL \<noteq> 0 then [ABIL_DELAYED_FIREBALL] else [])
     @ (if duration st DUR_SONG_OF_SLAYING \<noteq> 0 then [ABIL_STOP_SINGING] else [])
     @ (if you_q st you_scan_artefacts_blink \<and> mutation_level st MUT_NO_ARTIFICE = 0
        then [ABIL_EVOKE_BLINK] else [])
     @ (if you_q st you_scan_artefacts_fog \<and> mutation_level st MUT_NO_ARTIFICE = 0
        then [ABIL_EVOKE_FOG] else [])
     @ (if you_q st you_evokable_berserk \<and> mutation_level st MUT_NO_ARTIFICE = 0
        then [ABIL_EVOKE_BERSERK] else [])
     @ (if you_q st you_evokable_invis \<and> attribute st ATTR_INVIS_UNCANCELLABLE = 0
           \<and> mutation_level st MUT_NO_ARTIFICE = 0
        then (if duration st DUR_INVIS \<noteq> 0 then [ABIL_EVOKE_TURN_VISIBLE]
              else [ABIL_EVOKE_TURN_INVISIBLE])
        else [])
     @ (if you_q st you_evokable_flight \<and> mutation_level st MUT_NO_ARTIFICE = 0
           \<and> (\<not> you_q st you_permanent_flight \<or> \<not> you_q st you_racial_permanent_flight)
        then (if \<not> you_q st you_airborne
                 \<or> (attribute st ATTR_PERM_FLIGHT = 0 \<and> you_q st you_wearing_ego_flying)
              then [ABIL_EVOKE_FLIGHT] else [])
             @ (if you_q st you_airborne \<and> attribute st ATTR_FLIGHT_UNCANCELLABLE = 0
                then [ABIL_STOP_FLYING] else [])
        else [])"

fun add_talents ::
  "ability_type list \<Rightarrow> bool \<Rightarrow> talent list \<times> game \<Rightarrow> error + (talent list \<times> game)" where
  "add_talents [] check_confused vs = Inr vs"
| "add_talents (a # rest) check_confused vs =
     (case add_talent a check_confused vs of
        Inl e \<Rightarrow> Inl e
      | Inr vs1 \<Rightarrow> add_talents rest check_confused vs1)"

text \<open>
  The search "for a free hotkey, starting from Z": \<open>for (int k = 51; k >= 0; ++k)\<close>. The
  counter moves upwards, so the step after 51 calls \<open>index_to_letter(52)\<close>. The result is
  the index \<open>k\<close> at which the loop stops with a free key (\<open>None\<close> if the body never runs).
\<close>

function free_hotkey :: "int \<Rightarrow> talent list \<Rightarrow> error + int option" where
  "free_hotkey k talents =
     (if k \<ge> 0 then
        (case index_to_letter k of
           Inl e \<Rightarrow> Inl e
         | Inr kkey \<Rightarrow>
             if kkey \<notin> set (map hotkey talents) then Inr (Some k)
             else free_hotkey (k + 1) talents)
      else Inr None)"
  by pat_completeness auto
termination
  by (relation "measure (\<lambda>(k, talents). nat (52 - k))")
     (auto simp: index_to_letter_def split: if_splits)

declare free_hotkey.simps [simp del]

text \<open>
  The loop "Find hotkeys for the non-hotkeyed talents" over the vector of talents:
  \<open>visited\<close> holds the talents already visited (with their new hotkeys), the second list the
  talent being visited and those still to come. The check for a conflicting hotkey reads
  the whole vector. A free key \<open>k\<close> is stored as \<open>tal.hotkey = k\<close>.
\<close>

fun find_hotkeys :: "talent list \<Rightarrow> talent list \<Rightarrow> game \<Rightarrow> error + (talent list \<times> game)" where
  "find_hotkeys visited [] st = Inr (visited, st)"
| "find_hotkeys visited (tal # rest) st =
     (let index = lookup_ability_slot st (which tal) in
      if index > - 1 then
        (case index_to_letter index of
           Inl e \<Rightarrow> Inl e
         | Inr letter \<Rightarrow> find_hotkeys (visited @ [tal\<lparr>hotkey := letter\<rparr>]) rest st)
      else
        (case free_hotkey 51 (visited @ tal # rest) of
           Inl e \<Rightarrow> Inl e
         | Inr None \<Rightarrow> find_hotkeys (visited @ [tal]) rest st
         | Inr (Some k) \<Rightarrow>
             find_hotkeys (visited @ [tal\<lparr>hotkey := k\<rparr>]) rest (set_slot k (which tal) st)))"

definition your_talents :: "bool \<Rightarrow> bool \<Rightarrow> game \<Rightarrow> error + (talent list \<times> game)" where
  "your_talents check_confused include_unusable st =
     (case add_talents (innate_abilities include_unusable st) check_confused ([], st) of
        Inl e \<Rightarrow> Inl e
      | Inr vs1 \<Rightarrow>
     (case get_god_abilities include_unusable False include_unusable (snd vs1) of
        Inl e \<Rightarrow> Inl e
      | Inr gods \<Rightarrow>
     (case add_talents (gods @ faith_exit_abilities (snd vs1)) check_confused vs1 of
        Inl e \<Rightarrow> Inl e
      | Inr vs2 \<Rightarrow>
     (case add_talents (item_abilities (snd vs2)) check_confused vs2 of
        Inl e \<Rightarrow> Inl e
      | Inr vs3 \<Rightarrow> find_hotkeys [] (fst vs3) (snd vs3)))))"

subsection \<open>Effect dispatch\<close>

text \<open>
  \<open>_do_ability\<close> is one \<open>switch\<close> over the identity. In 108 of its cases the first
  statement is \<open>fail_check()\<close>, which returns \<open>SPRET_FAIL\<close> when the attempt is doomed; in
  the other 22 cases targeting or the effect itself comes first. What follows in a case
  (targeting, prompts, the unique effect) is implemented in other modules and is a
  parameter of the model: it receives the definition, the flag and the state and yields the
  outcome with the new state, or ends the program. An identity without a case reaches
  \<open>die("invalid ability")\<close>.
\<close>

definition fail_check_first :: "ability_type list" where
  "fail_check_first =
     [ABIL_MUMMY_RESTORATION, ABIL_RECHARGING, ABIL_DIG, ABIL_SHAFT_SELF,
      ABIL_DELAYED_FIREBALL, ABIL_BREATHE_LIGHTNING, ABIL_EVOKE_BLINK, ABIL_EVOKE_BERSERK,
      ABIL_FLY, ABIL_HELLFIRE, ABIL_EVOKE_TURN_INVISIBLE, ABIL_EVOKE_TURN_VISIBLE,
      ABIL_EVOKE_FLIGHT, ABIL_EVOKE_FOG, ABIL_STOP_SINGING, ABIL_STOP_FLYING,
      ABIL_END_TRANSFORMATION, ABIL_ZIN_RECITE, ABIL_ZIN_VITALISATION, ABIL_ZIN_SANCTUARY,
      ABIL_ZIN_CURE_ALL_MUTATIONS, ABIL_ZIN_DONATE_GOLD, ABIL_TSO_DIVINE_SHIELD,
      ABIL_TSO_CLEANSING_FLAME, ABIL_TSO_SUMMON_DIVINE_WARRIOR, ABIL_TSO_BLESS_WEAPON,
      ABIL_KIKU_RECEIVE_CORPSES, ABIL_KIKU_TORMENT, ABIL_KIKU_BLESS_WEAPON,
      ABIL_KIKU_GIFT_NECRONOMICON, ABIL_YRED_INJURY_MIRROR, ABIL_YRED_ANIMATE_REMAINS,
      ABIL_YRED_ANIMATE_DEAD, ABIL_YRED_RECALL_UNDEAD_SLAVES, ABIL_YRED_DRAIN_LIFE,
      ABIL_SIF_MUNA_CHANNEL_ENERGY, ABIL_OKAWARU_HEROISM, ABIL_OKAWARU_FINESSE,
      ABIL_TROG_BURN_SPELLBOOKS, ABIL_TROG_BERSERK, ABIL_TROG_REGEN_MR,
      ABIL_TROG_BROTHERS_IN_ARMS, ABIL_SIF_MUNA_FORGET_SPELL, ABIL_ELYVILON_LIFESAVING,
      ABIL_ELYVILON_LESSER_HEALING, ABIL_ELYVILON_GREATER_HEALING,
      ABIL_ELYVILON_PURIFICATION, ABIL_ELYVILON_DIVINE_VIGOUR, ABIL_LUGONU_ABYSS_EXIT,
      ABIL_LUGONU_BEND_SPACE, ABIL_LUGONU_CORRUPT, ABIL_LUGONU_ABYSS_ENTER,
      ABIL_LUGONU_BLESS_WEAPON, ABIL_NEMELEX_TRIPLE_DRAW, ABIL_NEMELEX_DEAL_FOUR,
      ABIL_NEMELEX_STACK_FIVE, ABIL_BEOGH_SMITING, ABIL_BEOGH_RECALL_ORCISH_FOLLOWERS,
      ABIL_STOP_RECALL, ABIL_FEDHAS_PLANT_RING, ABIL_FEDHAS_RAIN, ABIL_FEDHAS_SPAWN_SPORES,
      ABIL_TRAN_BAT, ABIL_JIYVA_CALL_JELLY, ABIL_JIYVA_JELLY_PARALYSE, ABIL_JIYVA_SLIMIFY,
      ABIL_JIYVA_CURE_BAD_MUTATION, ABIL_CHEIBRIADOS_TIME_STEP, ABIL_CHEIBRIADOS_TIME_BEND,
      ABIL_CHEIBRIADOS_DISTORTION, ABIL_CHEIBRIADOS_SLOUCH, ABIL_ASHENZARI_SCRYING,
      ABIL_ASHENZARI_TRANSFER_KNOWLEDGE, ABIL_ASHENZARI_END_TRANSFER,
      ABIL_DITHMENOS_SHADOW_STEP, ABIL_DITHMENOS_SHADOW_FORM, ABIL_GOZAG_POTION_PETITION,
      ABIL_GOZAG_CALL_MERCHANT, ABIL_GOZAG_BRIBE_BRANCH, ABIL_QAZLAL_ELEMENTAL_FORCE,
      ABIL_QAZLAL_DISASTER_AREA, ABIL_RU_SACRIFICE_PURITY, ABIL_RU_SACRIFICE_WORDS,
      ABIL_RU_SACRIFICE_DRINK, ABIL_RU_SACRIFICE_ESSENCE, ABIL_RU_SACRIFICE_HEALTH,
      ABIL_RU_SACRIFICE_STEALTH, ABIL_RU_SACRIFICE_ARTIFICE, ABIL_RU_SACRIFICE_LOVE,
      ABIL_RU_SACRIFICE_COURAGE, ABIL_RU_SACRIFICE_ARCANA, ABIL_RU_SACRIFICE_NIMBLENESS,
      ABIL_RU_SACRIFICE_DURABILITY, ABIL_RU_SACRIFICE_HAND, ABIL_RU_SACRIFICE_EXPERIENCE,
      ABIL_RU_SACRIFICE_SKILL, ABIL_RU_SACRIFICE_EYE, ABIL_RU_SACRIFICE_RESISTANCE,
      ABIL_RU_REJECT_SACRIFICES, ABIL_RU_DRAW_OUT_POWER, ABIL_RU_POWER_LEAP,
      ABIL_RU_APOCALYPSE, ABIL_PAKELLAS_DEVICE_SURGE, ABIL_PAKELLAS_QUICK_CHARGE,
      ABIL_PAKELLAS_SUPERCHARGE, ABIL_RENOUNCE_RELIGION, ABIL_CONVERT_TO_BEOGH,
      ABIL_NON_ABILITY]"

definition fail_check_later :: "ability_type list" where
  "fail_check_later =
     [ABIL_SPIT_POISON, ABIL_BREATHE_STICKY_FLAME, ABIL_BREATHE_FIRE, ABIL_BREATHE_FROST,
      ABIL_BREATHE_POISON, ABIL_SPIT_ACID, ABIL_BREATHE_POWER, ABIL_BREATHE_STEAM,
      ABIL_BREATHE_MEPHITIC, ABIL_BLINK, ABIL_ZIN_IMPRISON, ABIL_YRED_ENSLAVE_SOUL,
      ABIL_MAKHLEB_MINOR_DESTRUCTION, ABIL_MAKHLEB_LESSER_SERVANT_OF_MAKHLEB,
      ABIL_MAKHLEB_MAJOR_DESTRUCTION, ABIL_MAKHLEB_GREATER_SERVANT_OF_MAKHLEB,
      ABIL_ELYVILON_HEAL_OTHER, ABIL_LUGONU_BANISH, ABIL_BEOGH_GIFT_ITEM,
      ABIL_FEDHAS_SUNLIGHT, ABIL_FEDHAS_EVOLUTION, ABIL_QAZLAL_UPHEAVAL]"

type_synonym effect =
  "ability_def \<Rightarrow> bool \<Rightarrow> game \<Rightarrow> rng \<Rightarrow> error + (spret_type \<times> game \<times> rng)"

definition do_ability ::
  "effect \<Rightarrow> ability_def \<Rightarrow> bool \<Rightarrow> game \<Rightarrow> rng \<Rightarrow> error + (spret_type \<times> game \<times> rng)" where
  "do_ability eff abil doomed st g =
     (if ability abil \<in> set fail_check_first
      then (if doomed then Inr (SPRET_FAIL, st, g) else eff abil doomed st g)
      else if ability abil \<in> set fail_check_later then eff abil doomed st g
      else Inl Die)"

subsection \<open>Preconditions\<close>

text \<open>The per-ability \<open>switch\<close> at the end of \<open>_check_ability_possible\<close>.\<close>

definition check_special :: "ability_type \<Rightarrow> bool \<Rightarrow> game \<Rightarrow> bool" where
  "check_special a quiet st =
     (if a = ABIL_ZIN_RECITE
       then check_q st zin_check_able_to_recite \<and> check_q st zin_check_recite_to_monsters_1
      else if a = ABIL_ZIN_CURE_ALL_MUTATIONS then check_q st how_mutated
      else if a = ABIL_ZIN_SANCTUARY then \<not> check_q st sanctuary_time
      else if a = ABIL_ZIN_DONATE_GOLD then gold st \<noteq> 0
      else if a = ABIL_ELYVILON_PURIFICATION
       then \<not> (disease st = 0 \<and> duration st DUR_POISONING = 0 \<and> duration st DUR_CONF = 0
                \<and> duration st DUR_SLOW = 0 \<and> \<not> you_q st you_petrifying
                \<and> you_q st you_strength_at_max \<and> you_q st you_intel_at_max
                \<and> you_q st you_dex_at_max \<and> \<not> check_q st player_rotted
                \<and> duration st DUR_WEAK = 0)
      else if a = ABIL_MUMMY_RESTORATION
       then \<not> (you_q st you_strength_at_max \<and> you_q st you_intel_at_max
                \<and> you_q st you_dex_at_max \<and> \<not> check_q st player_rotted)
      else if a = ABIL_LUGONU_ABYSS_EXIT then check_q st player_in_branch_abyss
      else if a = ABIL_LUGONU_CORRUPT then \<not> check_q st is_level_incorruptible
      else if a = ABIL_LUGONU_ABYSS_ENTER then \<not> check_q st player_in_branch_abyss
      else if a = ABIL_SIF_MUNA_FORGET_SPELL then spell_no st \<noteq> 0
      else if a = ABIL_ASHENZARI_TRANSFER_KNOWLEDGE then \<not> check_q st all_skills_maxed
      else if a = ABIL_FEDHAS_EVOLUTION then check_q st fedhas_check_evolve_flora
      else if a = ABIL_FEDHAS_SPAWN_SPORES then check_q st fedhas_check_corpse_spores_pos
      else if a \<in> {ABIL_SPIT_POISON, ABIL_BREATHE_FIRE, ABIL_BREATHE_FROST,
          ABIL_BREATHE_POISON, ABIL_BREATHE_LIGHTNING, ABIL_SPIT_ACID, ABIL_BREATHE_POWER,
          ABIL_BREATHE_STICKY_FLAME, ABIL_BREATHE_STEAM, ABIL_BREATHE_MEPHITIC}
       then duration st DUR_BREATH_WEAPON = 0
      else if a \<in> {ABIL_BLINK, ABIL_EVOKE_BLINK} then you_q st you_no_tele_reason_empty
      else if a \<in> {ABIL_EVOKE_BERSERK, ABIL_TROG_BERSERK}
       then you_q st you_can_go_berserk_quiet
            \<and> (quiet \<or> check_q st berserk_check_wielded_weapon)
      else if a = ABIL_EVOKE_FOG then \<not> check_q st cloud_at_you_pos
      else if a = ABIL_GOZAG_POTION_PETITION then check_q st gozag_setup_potion_petition
      else if a = ABIL_GOZAG_CALL_MERCHANT then check_q st gozag_setup_call_merchant
      else if a = ABIL_GOZAG_BRIBE_BRANCH then check_q st gozag_check_bribe_branch
      else if a = ABIL_RU_SACRIFICE_EXPERIENCE
       then \<not> experience_level st \<le> ru_sac_xp_levels st
      else if a = ABIL_PAKELLAS_DEVICE_SURGE then magic_points st \<noteq> 0
      else if a = ABIL_PAKELLAS_QUICK_CHARGE then check_q st pakellas_check_quick_charge
      else True)"

text \<open>
  The static \<open>_check_ability_possible\<close>, which takes the definition. Under silence it calls
  \<open>get_talent\<close>, which may write the slot table and whose \<open>ASSERT\<close> may fail; hence the
  result carries the state. The public \<open>check_ability_possible\<close> takes the identity.
\<close>

definition static_check_ability_possible ::
  "ability_def \<Rightarrow> bool \<Rightarrow> bool \<Rightarrow> game \<Rightarrow> error + (bool \<times> game)" where
  "static_check_ability_possible abil hungerCheck quiet st =
     (if you_q st you_berserk then Inr (False, st)
      else if you_q st you_confused \<and> \<not> testbits (flags abil) abflag_CONF_OK
       then Inr (False, st)
      else
        (case (if world_q st silenced_you_pos
               then (case get_talent (ability abil) False st of
                       Inl e \<Rightarrow> Inl e
                     | Inr (tal, st1) \<Rightarrow> Inr (is_invocation tal, st1))
               else Inr (False, st)) of
           Inl e \<Rightarrow> Inl e
         | Inr (silenced_invocation, st1) \<Rightarrow>
             if silenced_invocation then Inr (False, st1)
             else if hungerCheck \<and> \<not> you_q st1 you_undead_state
                     \<and> hunger st1 - int (food_cost abil) * 2 \<le> 50
              then Inr (False, st1)
             else if has_flag (flags abil) abflag_PERMANENT_MP
                     \<and> real_mp st1 < int (mp_cost abil)
              then Inr (False, st1)
             else if (case find (\<lambda>action. action (ability_name (ability abil)))
                                (confirm_action st1) of
                        Some action \<Rightarrow> \<not> check_q st1 yesno_confirm
                      | None \<Rightarrow> False)
              then Inr (False, st1)
             else Inr (check_special (ability abil) quiet st1, st1)))"

definition check_ability_possible ::
  "ability_type \<Rightarrow> bool \<Rightarrow> bool \<Rightarrow> game \<Rightarrow> error + (bool \<times> game)" where
  "check_ability_possible a hungerCheck quiet st =
     static_check_ability_possible (get_ability_def a) hungerCheck quiet st"

subsection \<open>Cost settlement\<close>

text \<open>
  Modelled from the spec: \<open>div_rand_round\<close> is declared in random.h and implemented
  elsewhere. The spec places it among the helpers of the random source; it divides and
  rounds the quotient up with the probability given by the remainder, using one uniform
  draw.
\<close>

definition div_rand_round :: "int \<Rightarrow> int \<Rightarrow> rng \<Rightarrow> int \<times> rng" where
  "div_rand_round num den g =
     (let (r, g') = random2 den g
      in (c_div num den + (if r < num - den * c_div num den then 1 else 0), g'))"

definition scale_piety_cost :: "ability_type \<Rightarrow> int \<Rightarrow> game \<Rightarrow> rng \<Rightarrow> int \<times> rng" where
  "scale_piety_cost abil original_cost st g =
     (if world_q st game_is_sprint
         \<and> (abil = ABIL_TROG_BROTHERS_IN_ARMS
             \<or> abil = ABIL_MAKHLEB_GREATER_SERVANT_OF_MAKHLEB)
      then div_rand_round (original_cost * 5) 2 g
      else (original_cost, g))"

definition pay_ability_costs :: "ability_def \<Rightarrow> game \<Rightarrow> rng \<Rightarrow> game \<times> rng" where
  "pay_ability_costs abil st g =
     (let st1 = (if has_flag (flags abil) abflag_INSTANT
                 then issue update_turn_count
                        (st\<lparr>turn_is_over := False,
                            elapsed_time_at_last_input := elapsed_time st\<rparr>)
                 else st\<lparr>turn_is_over := True\<rparr>);
          (food_roll, g1) = random2avg (int (food_cost abil)) 2 g;
          food = int (food_cost abil) + food_roll;
          (piety_roll, g2) = generic_cost_cost (piety_cost abil) g1;
          (piety_cost_scaled, g3) = scale_piety_cost (ability abil) piety_roll st1 g2;
          hp = scaling_cost_cost (hp_cost abil) (hp_max st1);
          st2 = (if mp_cost abil \<noteq> 0
                 then (let s = issue (dec_mp (int (mp_cost abil))) st1
                       in if has_flag (flags abil) abflag_PERMANENT_MP
                          then issue (rot_mp 1) s else s)
                 else st1);
          st3 = (if scaling_cost_bool (hp_cost abil)
                 then (let s = issue (dec_hp hp) st2
                       in if has_flag (flags abil) abflag_PERMANENT_HP
                          then issue (rot_hp hp) s else s)
                 else st2);
          st4 = (if food \<noteq> 0 then issue (make_hungry food) st3 else st3);
          st5 = (if piety_cost_scaled \<noteq> 0 then issue (lose_piety piety_cost_scaled) st4
                 else st4)
      in (st5, g3))"

subsection \<open>Activation\<close>

text \<open>Abilities for which \<open>activate_talent\<close> clears \<open>hungerCheck\<close>.\<close>

definition needs_hunger_check :: "ability_type \<Rightarrow> bool" where
  "needs_hunger_check a =
     (a \<notin> {ABIL_RENOUNCE_RELIGION, ABIL_CONVERT_TO_BEOGH, ABIL_STOP_FLYING,
            ABIL_EVOKE_TURN_VISIBLE, ABIL_END_TRANSFORMATION, ABIL_DELAYED_FIREBALL,
            ABIL_STOP_SINGING, ABIL_MUMMY_RESTORATION, ABIL_TRAN_BAT,
            ABIL_ASHENZARI_END_TRANSFER})"

text \<open>
  The guards of \<open>activate_talent\<close> that precede the call of \<open>_check_ability_possible\<close>, in
  the order of the source. Each of them ends the call with
  \<open>crawl_state.zero_turns_taken(); return false;\<close>.
\<close>

definition early_abort :: "talent \<Rightarrow> game \<Rightarrow> bool" where
  "early_abort tal st =
     (let abil = get_ability_def (which tal);
          hpcost = scaling_cost_cost (hp_cost abil) (hp_max st)
      in if you_q st you_berserk then True
         else if (if which tal = ABIL_STOP_FLYING then world_q st is_feat_dangerous_here
                  else if which tal = ABIL_TRAN_BAT
                   then \<not> world_q st check_form_stat_safety_bat
                  else if which tal = ABIL_END_TRANSFORMATION
                   then world_q st feat_dangerous_for_form_none
                        \<or> \<not> world_q st check_form_stat_safety_none
                  else False)
          then True
         else if which tal \<in> {ABIL_EVOKE_BERSERK, ABIL_TROG_BERSERK}
                 \<and> \<not> you_q st you_can_go_berserk
          then True
         else if which tal \<in> {ABIL_EVOKE_FLIGHT, ABIL_TRAN_BAT, ABIL_FLY}
                 \<and> \<not> world_q st flight_allowed
          then True
         else if needs_hunger_check (which tal) \<and> \<not> you_q st you_undead_state
                 \<and> \<not> world_q st you_foodless \<and> world_q st hunger_state_le_starving
          then True
         else if mp_cost abil > 0 \<and> \<not> enough_mp st (int (mp_cost abil)) then True
         else if hpcost > 0 \<and> \<not> enough_hp st hpcost then True
         else False)"

text \<open>The statements of the branch \<open>SPRET_SUCCESS\<close> of \<open>activate_talent\<close> after its
  \<open>ASSERT\<close>: \<open>practise\<close>, \<open>_pay_ability_costs\<close>, \<open>count_action\<close>.\<close>

definition on_success :: "ability_def \<Rightarrow> talent \<Rightarrow> game \<Rightarrow> rng \<Rightarrow> game \<times> rng" where
  "on_success abil tal st g =
     (let st1 = issue (practise (ability abil)) st;
          (st2, g2) = pay_ability_costs abil st1 g
      in (issue (count_action (is_invocation tal) (ability abil)) st2, g2))"

text \<open>
  \<open>activate_talent\<close>. The roll \<open>random2avg(100, 3) < tal.fail\<close> dooms the attempt; the
  \<open>switch\<close> over the result of \<open>_do_ability\<close> settles the costs in the branch
  \<open>SPRET_SUCCESS\<close> only.
\<close>

definition activate_talent ::
  "effect \<Rightarrow> talent \<Rightarrow> game \<Rightarrow> rng \<Rightarrow> error + (bool \<times> game \<times> rng)" where
  "activate_talent eff tal st g =
     (if early_abort tal st then Inr (False, issue zero_turns_taken st, g)
      else
        (let abil = get_ability_def (which tal) in
         case static_check_ability_possible abil (needs_hunger_check (which tal)) False st of
           Inl e \<Rightarrow> Inl e
         | Inr (possible, st1) \<Rightarrow>
             if \<not> possible then Inr (False, issue zero_turns_taken st1, g)
             else
               (let (roll, g1) = random2avg 100 3 g;
                    doomed = (roll < fail tal)
                in case do_ability eff abil doomed st1 g1 of
                     Inl e \<Rightarrow> Inl e
                   | Inr (ability_result, st2, g2) \<Rightarrow>
                       (case ability_result of
                          SPRET_SUCCESS \<Rightarrow>
                            if \<not> (\<not> doomed \<or> testbits (flags abil) abflag_HOSTILE)
                            then Inl AssertionFailure
                            else (let (st3, g3) = on_success abil tal st2 g2
                                  in Inr (True, st3, g3))
                        | SPRET_FAIL \<Rightarrow> Inr (False, st2\<lparr>turn_is_over := True\<rparr>, g2)
                        | SPRET_ABORT \<Rightarrow> Inr (False, issue zero_turns_taken st2, g2)
                        | SPRET_NONE \<Rightarrow> Inl Die))))"

text \<open>
  The outcome of an attempt, for stating what \<open>activate_talent\<close> does with it: the result
  of \<open>_do_ability\<close> with the state it leaves; \<open>SPRET_ABORT\<close> with the initial state when
  one of the guards of \<open>activate_talent\<close> stops the attempt; \<open>SPRET_ABORT\<close> with the state
  left by \<open>_check_ability_possible\<close> (whose call of \<open>get_talent\<close> may have written the slot
  table) when that check stops it.
\<close>

definition attempt_outcome ::
  "effect \<Rightarrow> talent \<Rightarrow> game \<Rightarrow> rng \<Rightarrow> error + (spret_type \<times> game \<times> rng)" where
  "attempt_outcome eff tal st g =
     (if early_abort tal st then Inr (SPRET_ABORT, st, g)
      else
        (let abil = get_ability_def (which tal) in
         case static_check_ability_possible abil (needs_hunger_check (which tal)) False st of
           Inl e \<Rightarrow> Inl e
         | Inr (possible, st1) \<Rightarrow>
             if \<not> possible then Inr (SPRET_ABORT, st1, g)
             else
               (let (roll, g1) = random2avg 100 3 g
                in do_ability eff abil (roll < fail tal) st1 g1)))"




text \<open>The two loops of \<open>choose_ability_menu\<close> that add the entries: the positions of the
  talents in the order in which the menu lists them.\<close>

definition menu_order :: "talent list \<Rightarrow> nat list" where
  "menu_order talents =
     filter (\<lambda>i. \<not> is_invocation (talents ! i)) [0..<length talents]
     @ filter (\<lambda>i. is_invocation (talents ! i)) [0..<length talents]"

subsection \<open>Concrete states\<close>

text \<open>
  A level 1 character without god, mutations or items, in good health and with an empty
  slot table; the states below differ from it in the fields shown.
\<close>

definition plain_state :: game where
  "plain_state =
     \<lparr>species = SP_OTHER 0, form = TRAN_NONE, religion = GOD_NO_GOD, experience_level = 1,
      piety = 0, piety_rank = 0, piety_breakpoint = (\<lambda>i. 30 + 25 * i), hunger = 6000,
      hp_max = 20, magic_points = 5, real_mp = 5,
      enough_mp = (\<lambda>n. n \<le> 5), enough_hp = (\<lambda>n. n < 20), transfer_skill_points = 0,
      spell_no = 0, gold = 0, disease = 0, elapsed_time = 0, elapsed_time_at_last_input = 0,
      turn_is_over = False, ability_letter_table = (\<lambda>i. ABIL_NON_ABILITY),
      available_sacrifices = None, god_powers = [], draconian_breath = ABIL_NON_ABILITY,
      duration = (\<lambda>d. 0), attribute = (\<lambda>a. 0), mutation_level = (\<lambda>m. 0),
      skill = (\<lambda>sk scale. 0), brdepth_abyss = 1, brdepth_here = 15, ru_sac_xp_levels = 2,
      you_q = (\<lambda>q. q \<in> {you_recall_list_empty, you_no_tele_reason_empty,
                you_can_go_berserk, you_can_go_berserk_quiet, you_strength_at_max,
                you_intel_at_max, you_dex_at_max}),
      world_q = (\<lambda>q. q \<in> {check_form_stat_safety_bat, check_form_stat_safety_none,
                flight_allowed, tag_major_version_34}),
      check_q = (\<lambda>q. False),
      auto_ability_letters = [], confirm_action = [], requests = []\<rparr>"

text \<open>A tengu on the ground, who is offered Fly (3 MP, food 100, failure 39 at level 1).\<close>

definition tengu_state :: game where
  "tengu_state =
     plain_state\<lparr>species := SP_TENGU,
       mutation_level := (\<lambda>m. if m = MUT_TENGU_FLIGHT then 1 else 0)\<rparr>"

definition fly_talent :: talent where
  "fly_talent = \<lparr>which = ABIL_FLY, hotkey = 102, fail = 39, is_invocation = False\<rparr>"

text \<open>A worshipper of Makhleb at the second rank of piety who wears an artefact that
  lets its wearer blink.\<close>

definition makhleb_state :: game where
  "makhleb_state =
     plain_state\<lparr>religion := GOD_MAKHLEB, piety := 60, piety_rank := 2,
       god_powers := [(1, ABIL_MAKHLEB_MINOR_DESTRUCTION),
                      (2, ABIL_MAKHLEB_LESSER_SERVANT_OF_MAKHLEB),
                      (4, ABIL_MAKHLEB_MAJOR_DESTRUCTION),
                      (5, ABIL_MAKHLEB_GREATER_SERVANT_OF_MAKHLEB)],
       you_q := (\<lambda>q. q \<in> {you_recall_list_empty, you_no_tele_reason_empty,
                 you_can_go_berserk, you_can_go_berserk_quiet, you_strength_at_max,
                 you_intel_at_max, you_dex_at_max, you_scan_artefacts_blink})\<rparr>"

text \<open>A character with the mutations for Hellfire and Blink whose slot table is full: its
  52 slots hold other abilities, those of earlier gods.\<close>

definition full_table_state :: game where
  "full_table_state =
     plain_state\<lparr>ability_letter_table := (\<lambda>i. ABIL (i + 30)),
       mutation_level := (\<lambda>m. if m = MUT_HURL_HELLFIRE \<or> m = MUT_BLINK then 1 else 0)\<rparr>"

text \<open>The worshipper of Makhleb under silence, with the talent for renouncing the god
  (no cost, failure 0, an invocation) that \<open>your_talents\<close> offers there.\<close>

definition silenced_makhleb_state :: game where
  "silenced_makhleb_state =
     makhleb_state\<lparr>world_q := (\<lambda>q. q \<in> {check_form_stat_safety_bat,
       check_form_stat_safety_none, flight_allowed, tag_major_version_34,
       silenced_you_pos})\<rparr>"

definition renounce_talent :: talent where
  "renounce_talent =
     \<lparr>which = ABIL_RENOUNCE_RELIGION, hotkey = 102, fail = 0, is_invocation = True\<rparr>"

text \<open>An effect that always succeeds and changes nothing, an effect that always aborts and
  changes nothing, and two generator states: one whose raw values are all 0 (every roll is
  0) and one whose raw values are all 60.\<close>

definition effect_succeeds :: effect where
  "effect_succeeds abil doomed st g = Inr (SPRET_SUCCESS, st, g)"


definition low_rolls :: rng where
  "low_rolls i = 0"

definition high_rolls :: rng where
  "high_rolls i = 60"

subsection \<open>Notions for stating the order of the talents\<close>

text \<open>The identity and the class (invocation or not) of a talent.\<close>

definition talent_class :: "talent \<Rightarrow> ability_type \<times> bool" where
  "talent_class t = (which t, is_invocation t)"

text \<open>
  What \<open>_add_talent\<close> keeps of a list of identities in a given state, as identity and class:
  an identity is dropped when \<open>fixup_ability\<close> maps it to the sentinel, or when the player is
  confused, \<open>check_confused\<close> is set and the resolved ability lacks the flag \<open>CONF_OK\<close>.
\<close>

definition offered :: "bool \<Rightarrow> game \<Rightarrow> ability_type list \<Rightarrow> (ability_type \<times> bool) list" where
  "offered check_confused st as =
     map (\<lambda>a. (fixup_ability st a, snd (talent_failure st a)))
       (filter (\<lambda>a. fixup_ability st a \<noteq> ABIL_NON_ABILITY
                     \<and> \<not> (check_confused \<and> you_q st you_confused
                            \<and> \<not> testbits (flags (get_ability_def (fixup_ability st a)))
                                  abflag_CONF_OK)) as)"

text \<open>Two states that differ at most in the slot table.\<close>

definition same_but_slots :: "game \<Rightarrow> game \<Rightarrow> bool" where
  "same_but_slots st st' = (\<exists>tbl. st' = st\<lparr>ability_letter_table := tbl\<rparr>)"

section \<open>Properties\<close>

subsection \<open>Registry lookup\<close>

lemma find_ability_def_SomeD:
  "find_ability_def xs a = Some d \<Longrightarrow> d \<in> set xs \<and> ability d = a"
  by (induction xs) (auto split: if_splits)

lemma find_ability_def_None_iff:
  "find_ability_def xs a = None \<longleftrightarrow> a \<notin> ability ` set xs"
  by (induction xs) auto

lemma find_ability_def_distinct:
  "distinct (map ability xs) \<Longrightarrow> d \<in> set xs \<Longrightarrow> find_ability_def xs (ability d) = Some d"
  by (induction xs) (auto simp: rev_image_eqI)

lemma Ability_List_identities:
  "map ability Ability_List = map (\<lambda>n. ABIL (int n)) [0..<130]"
  unfolding Ability_List_def ability_entry_def
  by (simp add: upt_rec)

lemma Ability_List_distinct: "distinct (map ability Ability_List)"
  unfolding Ability_List_identities by (simp add: distinct_map inj_on_def)

lemma Ability_List_first:
  "Ability_List ! 0 =
     ability_entry ABIL_NON_ABILITY ''No ability'' 0 (scaling_cost_permille 0) 0
       (generic_cost_num 0) abflag_NONE"
  by (simp add: Ability_List_def)

lemma FLY_entry_in:
  "ability_entry ABIL_FLY ''Fly'' 3 (scaling_cost_permille 0) 100 (generic_cost_num 0)
     abflag_NONE \<in> set Ability_List"
  by (simp add: Ability_List_def)

lemma unlisted_500: "ABIL 500 \<notin> ability ` set Ability_List"
  unfolding set_map [symmetric] Ability_List_identities by auto

text \<open>
  C8. \<open>get_ability_def\<close> is a total function, so it returns a definition for every identity
  value. For a registered identity it returns the entry of the table that carries this
  identity; for any other identity it returns the first entry of the table, which is the
  sentinel "No ability" with identity \<open>ABIL_NON_ABILITY\<close>.
\<close>

theorem get_ability_def_lookup:
  "(\<forall>d \<in> set Ability_List. ability d = abil \<longrightarrow> get_ability_def abil = d) \<and>
   (abil \<notin> ability ` set Ability_List \<longrightarrow> get_ability_def abil = Ability_List ! 0) \<and>
   ability (Ability_List ! 0) = ABIL_NON_ABILITY \<and> name (Ability_List ! 0) = ''No ability''"
proof (intro conjI ballI impI)
  fix d assume "d \<in> set Ability_List" and "ability d = abil"
  then have "find_ability_def Ability_List abil = Some d"
    using find_ability_def_distinct [OF Ability_List_distinct] by blast
  then show "get_ability_def abil = d" by (simp add: get_ability_def_def)
next
  assume "abil \<notin> ability ` set Ability_List"
  then have "find_ability_def Ability_List abil = None"
    by (simp add: find_ability_def_None_iff)
  then show "get_ability_def abil = Ability_List ! 0" by (simp add: get_ability_def_def)
next
  show "ability (Ability_List ! 0) = ABIL_NON_ABILITY"
    by (simp add: Ability_List_first ability_entry_def)
  show "name (Ability_List ! 0) = ''No ability''"
    by (simp add: Ability_List_first ability_entry_def)
qed

theorem get_ability_def_lookup_witness:
  "get_ability_def ABIL_FLY =
     ability_entry ABIL_FLY ''Fly'' 3 (scaling_cost_permille 0) 100 (generic_cost_num 0)
       abflag_NONE \<and>
   ABIL 500 \<notin> ability ` set Ability_List \<and>
   get_ability_def (ABIL 500) = Ability_List ! 0"
  using get_ability_def_lookup [of ABIL_FLY] get_ability_def_lookup [of "ABIL 500"]
    FLY_entry_in unlisted_500
  by (auto simp: ability_entry_def)

subsection \<open>Cost evaluation\<close>

lemma c_div_nonneg: "0 \<le> a \<Longrightarrow> 0 < b \<Longrightarrow> c_div a b = a div b"
  by (simp add: c_div_def)

lemma c_div_one: "c_div a 1 = a"
  by (simp add: c_div_def)

lemma random2_range: "1 \<le> mx \<Longrightarrow> 0 \<le> fst (random2 mx g) \<and> fst (random2 mx g) < mx"
  by (simp add: random2_def)

lemma random2avg_one_roll: "fst (random2avg mx 1 g) = fst (random2 mx g)"
  by (simp add: random2avg_def c_div_one split: prod.splits)

lemma random2avg_one_roll_range:
  "1 \<le> mx \<Longrightarrow> 0 \<le> fst (random2avg mx 1 g) \<and> fst (random2avg mx 1 g) < mx"
  using random2_range [of mx g] by (simp add: random2avg_one_roll)

lemma generic_cost_cost_fst:
  "fst (generic_cost_cost c g) =
     (if add c > 0 then base c + fst (random2avg (add c) (rolls c) g) else base c)"
  by (simp add: generic_cost_cost_def split: prod.splits)

text \<open>
  C9. A discrete cost whose additive term is 0 evaluates to exactly its base and leaves the
  generator untouched, for every generator state. A discrete cost built by
  \<open>range(lo, hi)\<close> (one roll, the default) with \<open>lo \<le> hi\<close> evaluates to a value between
  \<open>lo\<close> and \<open>hi\<close>, for every generator state.
\<close>

theorem generic_cost_cost_bounds:
  "(add c = 0 \<longrightarrow> generic_cost_cost c g = (base c, g)) \<and>
   (lo \<le> hi \<longrightarrow>
      lo \<le> fst (generic_cost_cost (generic_cost_range lo hi 1) g) \<and>
      fst (generic_cost_cost (generic_cost_range lo hi 1) g) \<le> hi)"
proof (intro conjI impI)
  assume "add c = 0"
  then show "generic_cost_cost c g = (base c, g)" by (simp add: generic_cost_cost_def)
next
  assume le: "lo \<le> hi"
  then have "1 \<le> hi - lo + 1" by simp
  from random2avg_one_roll_range [OF this, of g] le
  show "lo \<le> fst (generic_cost_cost (generic_cost_range lo hi 1) g)"
    and "fst (generic_cost_cost (generic_cost_range lo hi 1) g) \<le> hi"
    by (simp_all add: generic_cost_cost_fst generic_cost_range_def generic_cost_ctor_def)
qed

theorem generic_cost_cost_bounds_witness:
  "add (generic_cost_fixed 35) = 0 \<and>
   generic_cost_cost (generic_cost_fixed 35) (\<lambda>i. 7) = (35, \<lambda>i. 7) \<and>
   (5::int) \<le> 6 \<and>
   5 \<le> fst (generic_cost_cost (generic_cost_range 5 6 1) (\<lambda>i. 7)) \<and>
   fst (generic_cost_cost (generic_cost_range 5 6 1) (\<lambda>i. 7)) \<le> 6"
  using generic_cost_cost_bounds [of "generic_cost_fixed 35" "\<lambda>i. 7" 5 6]
  by (simp add: generic_cost_fixed_def generic_cost_ctor_def)

text \<open>
  C10. The one-argument constructor \<open>generic_cost(n)\<close> stores base \<open>n\<close>, one roll and the
  additive term \<open>(n + 1) / 2 + 1\<close> for \<open>n \<noteq> 0\<close>, and 0 for \<open>n = 0\<close>. Hence for \<open>n > 0\<close>
  every evaluation lies between \<open>n\<close> and \<open>n + (n + 1) / 2\<close>, and for \<open>n = 0\<close> every
  evaluation is 0.
\<close>

theorem generic_cost_num_cost:
  "base (generic_cost_num n) = n \<and> rolls (generic_cost_num n) = 1 \<and>
   add (generic_cost_num n) = (if n = 0 then 0 else c_div (n + 1) 2 + 1) \<and>
   (0 < n \<longrightarrow>
      n \<le> fst (generic_cost_cost (generic_cost_num n) g) \<and>
      fst (generic_cost_cost (generic_cost_num n) g) \<le> n + c_div (n + 1) 2) \<and>
   (n = 0 \<longrightarrow> fst (generic_cost_cost (generic_cost_num n) g) = 0)"
proof (intro conjI impI)
  assume pos: "0 < n"
  then have a: "add (generic_cost_num n) = (n + 1) div 2 + 1"
    by (simp add: generic_cost_num_def c_div_nonneg)
  from pos have "1 \<le> (n + 1) div 2 + 1" by simp
  from random2avg_one_roll_range [OF this, of g] pos a
  show "n \<le> fst (generic_cost_cost (generic_cost_num n) g)"
    and "fst (generic_cost_cost (generic_cost_num n) g) \<le> n + c_div (n + 1) 2"
    by (simp_all add: generic_cost_cost_fst generic_cost_num_def c_div_nonneg)
qed (simp_all add: generic_cost_num_def generic_cost_cost_def)

theorem generic_cost_num_cost_witness:
  "add (generic_cost_num 15) = 9 \<and> (0::int) < 15 \<and>
   15 \<le> fst (generic_cost_cost (generic_cost_num 15) (\<lambda>i. 8)) \<and>
   fst (generic_cost_cost (generic_cost_num 15) (\<lambda>i. 8)) \<le> 23 \<and>
   fst (generic_cost_cost (generic_cost_num 0) (\<lambda>i. 8)) = 0"
  using generic_cost_num_cost [of 15 "\<lambda>i. 8"] generic_cost_num_cost [of 0 "\<lambda>i. 8"]
  by (simp add: c_div_def)

text \<open>
  C3. The scaling cost of a non-negative per-mille magnitude is computed as
  \<open>(value * max + 500) / 1000\<close>, which rounds to the nearest integer and not upwards.
  Blink is registered with 50 per mille of the hit-point maximum; at a maximum of 25 the
  source charges 1 hit point, where rounding \<open>1.25\<close> up gives 2.
\<close>

theorem scaling_cost_cost_not_ceiling:
  "hp_cost (get_ability_def ABIL_BLINK) = scaling_cost_permille 50 \<and>
   scaling_cost_cost (scaling_cost_permille 50) 25 = 1 \<and>
   scaling_cost_cost_spec (scaling_cost_permille 50) 25 = 2"
  by (simp add: get_ability_def_def Ability_List_def ability_entry_def scaling_cost_cost_def
      scaling_cost_cost_spec_def scaling_cost_permille_def c_div_def)

subsection \<open>Placeholders and talents\<close>

text \<open>
  C5. \<open>fixup_ability\<close> is idempotent in every state: an identity that it returns (the
  identity itself, \<open>ABIL_STOP_RECALL\<close> or the sentinel \<open>ABIL_NON_ABILITY\<close>) is returned
  unchanged when the mapping is applied again in the same state.
\<close>

theorem fixup_ability_idempotent:
  "fixup_ability st (fixup_ability st a) = fixup_ability st a"
  by (simp add: fixup_ability_def)

theorem fixup_ability_idempotent_witness:
  "fixup_ability plain_state (fixup_ability plain_state ABIL_BEOGH_RECALL_ORCISH_FOLLOWERS)
     = ABIL_BEOGH_RECALL_ORCISH_FOLLOWERS \<and>
   fixup_ability (plain_state\<lparr>you_q := (\<lambda>q. False)\<rparr>) ABIL_BEOGH_RECALL_ORCISH_FOLLOWERS
     = ABIL_STOP_RECALL \<and>
   fixup_ability (plain_state\<lparr>you_q := (\<lambda>q. False)\<rparr>) ABIL_STOP_RECALL = ABIL_STOP_RECALL"
  using fixup_ability_idempotent [of plain_state ABIL_BEOGH_RECALL_ORCISH_FOLLOWERS]
    fixup_ability_idempotent [of "plain_state\<lparr>you_q := (\<lambda>q. False)\<rparr>"
      ABIL_BEOGH_RECALL_ORCISH_FOLLOWERS]
  by (simp add: fixup_ability_def plain_state_def)

lemma same_but_slots_refl: "same_but_slots st st"
  unfolding same_but_slots_def by (rule exI [of _ "ability_letter_table st"]) simp

lemma same_but_slots_trans:
  "same_but_slots st st1 \<Longrightarrow> same_but_slots st1 st2 \<Longrightarrow> same_but_slots st st2"
  unfolding same_but_slots_def by auto

lemma same_but_slots_set_slot: "same_but_slots st (set_slot i a st)"
  unfolding same_but_slots_def set_slot_def by blast

lemma same_but_slots_swap: "same_but_slots st (swap_ability_slots i j st)"
  unfolding swap_ability_slots_def Let_def
  by (blast intro: same_but_slots_trans same_but_slots_set_slot)

lemma auto_assign_chars_frame:
  "auto_assign_chars st slot abil_type pat cs ow = Inr (Some (i, st'), ow') \<Longrightarrow>
   same_but_slots st st'"
proof (induction cs arbitrary: ow)
  case Nil
  then show ?case by simp
next
  case (Cons c cs)
  show ?case
    using Cons.prems Cons.IH
    by (auto simp: Let_def split: if_splits sum.splits
        intro: same_but_slots_trans same_but_slots_set_slot same_but_slots_swap)
qed

lemma auto_assign_mappings_frame:
  "auto_assign_mappings st slot abil_type abilname ms ow = Inr (i, st') \<Longrightarrow>
   same_but_slots st st'"
proof (induction ms arbitrary: ow)
  case Nil
  then show ?case by (simp add: same_but_slots_refl)
next
  case (Cons m ms)
  show ?case
    using Cons.prems Cons.IH
    by (auto split: if_splits sum.splits option.splits prod.splits
        dest: auto_assign_chars_frame)
qed

lemma auto_assign_ability_slot_frame:
  "auto_assign_ability_slot slot st = Inr (i, st') \<Longrightarrow> same_but_slots st st'"
  by (auto simp: auto_assign_ability_slot_def Let_def dest: auto_assign_mappings_frame)

lemma find_ability_slot_frame:
  "find_ability_slot a c st = Inr (i, st') \<Longrightarrow> same_but_slots st st'"
  by (auto simp: find_ability_slot_def Let_def
      split: if_splits sum.splits option.splits
      dest!: auto_assign_ability_slot_frame
      intro: same_but_slots_refl same_but_slots_trans [OF same_but_slots_set_slot])


lemma fixup_ability_slots [simp]:
  "fixup_ability (st\<lparr>ability_letter_table := tbl\<rparr>) = fixup_ability st"
  by (rule ext) (simp add: fixup_ability_def)

lemma talent_failure_slots [simp]:
  "talent_failure (st\<lparr>ability_letter_table := tbl\<rparr>) = talent_failure st"
  by (rule ext) (simp add: talent_failure_def)

lemma offered_slots [simp]:
  "offered cc (st\<lparr>ability_letter_table := tbl\<rparr>) = offered cc st"
  by (rule ext) (simp add: offered_def)

lemma innate_abilities_slots [simp]:
  "innate_abilities iu (st\<lparr>ability_letter_table := tbl\<rparr>) = innate_abilities iu st"
  by (simp add: innate_abilities_def)

lemma faith_exit_abilities_slots [simp]:
  "faith_exit_abilities (st\<lparr>ability_letter_table := tbl\<rparr>) = faith_exit_abilities st"
  by (simp add: faith_exit_abilities_def you_worship_def)

lemma item_abilities_slots [simp]:
  "item_abilities (st\<lparr>ability_letter_table := tbl\<rparr>) = item_abilities st"
  by (simp add: item_abilities_def)

lemma god_power_abilities_slots [simp]:
  "god_power_abilities (st\<lparr>ability_letter_table := tbl\<rparr>) ip ipn ps acc
     = god_power_abilities st ip ipn ps acc"
  by (induction ps arbitrary: acc ip ipn) (simp_all add: Let_def)

lemma get_god_abilities_slots [simp]:
  "get_god_abilities isil ip ipn (st\<lparr>ability_letter_table := tbl\<rparr>)
     = get_god_abilities isil ip ipn st"
  by (simp add: get_god_abilities_def you_worship_def Let_def
      cong: sum.case_cong option.case_cong if_cong)


lemma letter_to_index_alpha:
  "isaalpha c \<Longrightarrow> \<exists>i. letter_to_index c = Inr i \<and> 0 \<le> i \<and> i < 52"
  by (auto simp: isaalpha_def letter_to_index_def Let_def)

lemma letter_to_index_f: "letter_to_index CHR ''f'' = Inr 5"
  by (simp add: letter_to_index_def)

lemma auto_assign_chars_total:
  "\<exists>r ow'. auto_assign_chars st slot abil_type pat cs ow = Inr (r, ow') \<and>
     (\<forall>i st'. r = Some (i, st') \<longrightarrow> 0 \<le> i \<and> i < 52)"
proof (induction cs arbitrary: ow)
  case Nil
  then show ?case by simp
next
  case (Cons c cs)
  show ?case
  proof (cases "isaalpha c \<and> c \<noteq> CHR ''+'' \<and> c \<noteq> CHR ''-''")
    case True
    then obtain i where i: "letter_to_index c = Inr i" "0 \<le> i" "i < 52"
      using letter_to_index_alpha by blast
    with True Cons.IH [of ow] show ?thesis by (auto simp: Let_def)
  next
    case False
    with Cons.IH [of True] Cons.IH [of False] Cons.IH [of ow] show ?thesis by auto
  qed
qed

lemma auto_assign_mappings_total:
  "0 \<le> slot \<Longrightarrow> slot < 52 \<Longrightarrow>
   \<exists>i st'. auto_assign_mappings st slot abil_type abilname ms ow = Inr (i, st') \<and>
     0 \<le> i \<and> i < 52"
proof (induction ms arbitrary: ow)
  case Nil
  then show ?case by simp
next
  case (Cons m ms)
  obtain r ow' where
    c: "auto_assign_chars st slot abil_type (fst m) (snd m) ow = Inr (r, ow')" and
    b: "\<forall>i st'. r = Some (i, st') \<longrightarrow> 0 \<le> i \<and> i < 52"
    using auto_assign_chars_total by blast
  show ?case
  proof (cases r)
    case None
    with c Cons.IH [OF Cons.prems, of ow] Cons.IH [OF Cons.prems, of ow'] show ?thesis
      by auto
  next
    case (Some p)
    with c b Cons.IH [OF Cons.prems, of ow] show ?thesis
      by (cases p) auto
  qed
qed

lemma auto_assign_ability_slot_total:
  "0 \<le> slot \<Longrightarrow> slot < 52 \<Longrightarrow>
   \<exists>i st'. auto_assign_ability_slot slot st = Inr (i, st') \<and> 0 \<le> i \<and> i < 52"
  unfolding auto_assign_ability_slot_def Let_def by (rule auto_assign_mappings_total)

lemma find_in_range:
  "find P xs = Some x \<Longrightarrow> x \<in> set xs"
  by (induction xs) (auto split: if_splits)

lemma lookup_ability_slot_range:
  "- 1 \<le> lookup_ability_slot st a \<and> lookup_ability_slot st a < 52"
  by (auto simp: lookup_ability_slot_def split: option.splits dest!: find_in_range)

lemma preferred_first_slot_total:
  "0 \<le> fs \<Longrightarrow> fs < 52 \<Longrightarrow> \<exists>i. preferred_first_slot a fs = Inr i \<and> 0 \<le> i \<and> i < 52"
  by (simp add: preferred_first_slot_def letter_to_index_def)

lemma find_ability_slot_total:
  "\<exists>i st'. find_ability_slot a CHR ''f'' st = Inr (i, st') \<and> - 1 \<le> i \<and> i < 52"
proof (cases "lookup_ability_slot st a > - 1")
  case True
  with lookup_ability_slot_range [of st a] show ?thesis
    by (simp add: find_ability_slot_def)
next
  case False
  define fs1 :: int where "fs1 = (if species st = SP_BASE_DRACONIAN then 6 else 5)"
  have fs1: "0 \<le> fs1" "fs1 < 52" by (simp_all add: fs1_def)
  from preferred_first_slot_total [OF fs1] obtain fs where
    fs: "preferred_first_slot a fs1 = Inr fs" "0 \<le> fs" "fs < 52" by blast
  let ?free = "\<lambda>slot. ability_letter_table st slot = ABIL_NON_ABILITY"
  have assign: "\<And>slot. 0 \<le> slot \<and> slot < 52 \<Longrightarrow>
      \<exists>i st'. auto_assign_ability_slot slot (set_slot slot a st) = Inr (i, st')
         \<and> - 1 \<le> i \<and> i < 52"
    using auto_assign_ability_slot_total by force
  have up: "\<And>slot. find ?free [fs..51] = Some slot \<Longrightarrow> 0 \<le> slot \<and> slot < 52"
    using fs(2) by (auto dest!: find_in_range)
  have down: "\<And>slot. find ?free (rev [0..fs - 1]) = Some slot \<Longrightarrow> 0 \<le> slot \<and> slot < 52"
    using fs(3) by (auto dest!: find_in_range)
  have unfold: "find_ability_slot a CHR ''f'' st =
      (case find ?free [fs..51] of
         Some slot \<Rightarrow> auto_assign_ability_slot slot (set_slot slot a st)
       | None \<Rightarrow>
          (case find ?free (rev [0..fs - 1]) of
             Some slot \<Rightarrow> auto_assign_ability_slot slot (set_slot slot a st)
           | None \<Rightarrow> Inr (- 1, st)))"
    using False fs(1) unfolding fs1_def
    by (cases "species st = SP_BASE_DRACONIAN")
       (simp_all add: find_ability_slot_def letter_to_index_f)
  show ?thesis
  proof (cases "find ?free [fs..51]")
    case (Some slot)
    with unfold assign [OF up [OF Some]] show ?thesis by simp
  next
    case None
    show ?thesis
    proof (cases "find ?free (rev [0..fs - 1])")
      case (Some slot)
      with unfold None assign [OF down [OF Some]] show ?thesis by simp
    next
      case None2: None
      with unfold None show ?thesis by simp
    qed
  qed
qed

lemma get_talent_total:
  assumes "a \<noteq> ABIL_NON_ABILITY"
  shows "\<exists>t st'. get_talent a cc st = Inr (t, st')"
proof -
  obtain i st1 where
    f: "find_ability_slot (ability (get_ability_def (fixup_ability st a))) CHR ''f'' st
          = Inr (i, st1)" and
    r: "- 1 \<le> i" "i < 52"
    using find_ability_slot_total by blast
  then have "\<exists>l. (if i \<ge> 0 then index_to_letter i else Inr 0) = Inr l"
    by (simp add: index_to_letter_def)
  then obtain l where l: "(if i \<ge> 0 then index_to_letter i else Inr 0) = Inr l" by blast
  from assms f l show ?thesis
    by (simp add: get_talent_def Let_def split: prod.splits)
qed

text \<open>
  C4. For every identity other than the sentinel (for which the \<open>ASSERT\<close> at the head of
  \<open>get_talent\<close> ends the program), every state and both values of \<open>check_confused\<close>,
  \<open>get_talent\<close> returns a talent; and the failure percentage stored in a talent that
  \<open>get_talent\<close> returns lies between 0 and 100, whatever the raw formula yields: unless the
  talent is the sentinel, it is the raw value of the formula limited to this range.
\<close>

theorem get_talent_fail_range:
  "(a \<noteq> ABIL_NON_ABILITY \<longrightarrow> (\<exists>t st'. get_talent a check_confused st = Inr (t, st'))) \<and>
   (\<forall>t st'. get_talent a check_confused st = Inr (t, st') \<longrightarrow>
      0 \<le> fail t \<and> fail t \<le> 100 \<and>
      (which t \<noteq> ABIL_NON_ABILITY \<longrightarrow>
         fail t = max 0 (min 100 (fst (talent_failure st a)))))"
proof (intro conjI impI allI)
  assume "a \<noteq> ABIL_NON_ABILITY"
  then show "\<exists>t st'. get_talent a check_confused st = Inr (t, st')"
    by (rule get_talent_total)
next
  fix t st' assume "get_talent a check_confused st = Inr (t, st')"
  then show "0 \<le> fail t" and "fail t \<le> 100"
    by (auto simp: get_talent_def Let_def split: if_splits sum.splits prod.splits)
next
  fix t st'
  assume g: "get_talent a check_confused st = Inr (t, st')"
    and w: "which t \<noteq> ABIL_NON_ABILITY"
  then obtain index st1 where
    f: "find_ability_slot (ability (get_ability_def (fixup_ability st a))) CHR ''f'' st
          = Inr (index, st1)" and
    v: "fail t = max 0 (min 100 (fst (talent_failure st1 a)))"
    by (auto simp: get_talent_def Let_def split: if_splits sum.splits prod.splits)
  from find_ability_slot_frame [OF f] have "talent_failure st1 = talent_failure st"
    by (auto simp: same_but_slots_def)
  with v show "fail t = max 0 (min 100 (fst (talent_failure st a)))" by simp
qed

text \<open>A level 27 character: the raw value for Fly is \<open>42 - 3 * 27 = -39\<close>.\<close>

theorem get_talent_fail_range_witness:
  "ABIL_FLY \<noteq> ABIL_NON_ABILITY \<and>
   \<not> isl (get_talent ABIL_FLY False (tengu_state\<lparr>experience_level := 27\<rparr>)) \<and>
   fst (talent_failure (tengu_state\<lparr>experience_level := 27\<rparr>) ABIL_FLY) = - 39 \<and>
   fail (fst (projr (get_talent ABIL_FLY False (tengu_state\<lparr>experience_level := 27\<rparr>)))) = 0"
proof -
  have ne: "ABIL_FLY \<noteq> ABIL_NON_ABILITY" by simp
  have raw: "fst (talent_failure (tengu_state\<lparr>experience_level := 27\<rparr>) ABIL_FLY) = - 39"
    by code_simp
  have w: "which (fst (projr
      (get_talent ABIL_FLY False (tengu_state\<lparr>experience_level := 27\<rparr>)))) = ABIL_FLY"
    by code_simp
  from get_talent_fail_range [of ABIL_FLY False "tengu_state\<lparr>experience_level := 27\<rparr>"] ne
  obtain t st' where
    eq: "get_talent ABIL_FLY False (tengu_state\<lparr>experience_level := 27\<rparr>) = Inr (t, st')"
    and r: "which t \<noteq> ABIL_NON_ABILITY \<longrightarrow>
         fail t = max 0 (min 100
           (fst (talent_failure (tengu_state\<lparr>experience_level := 27\<rparr>) ABIL_FLY)))"
    by blast
  from w eq have "which t = ABIL_FLY" by simp
  with r raw eq ne show ?thesis by simp
qed

subsection \<open>Activation and cost settlement\<close>



text \<open>The talents used below are those that \<open>your_talents\<close> offers: Fly to the tengu, and
  to the silenced worshipper of Makhleb the renouncing of the god, first in its list.\<close>

lemma tengu_is_offered_fly:
  "\<not> isl (your_talents False False tengu_state) \<and>
   fst (projr (your_talents False False tengu_state)) = [fly_talent]"
  by code_simp

lemma silenced_makhleb_is_offered_renounce:
  "\<not> isl (your_talents False False silenced_makhleb_state) \<and>
   hd (fst (projr (your_talents False False silenced_makhleb_state))) = renounce_talent"
  by code_simp











text \<open>
  C2, as the source has it. Whenever \<open>activate_talent\<close> returns, it returns \<open>true\<close> exactly
  when the outcome of the attempt is \<open>SPRET_SUCCESS\<close>; for \<open>SPRET_FAIL\<close> it returns \<open>false\<close>
  although the turn is over, and for \<open>SPRET_ABORT\<close> it returns \<open>false\<close>.
\<close>

theorem activate_talent_true_iff_success:
  "activate_talent eff tal st g = Inr (b, st', g') \<Longrightarrow>
   \<exists>r st1 g1. attempt_outcome eff tal st g = Inr (r, st1, g1) \<and> r \<noteq> SPRET_NONE \<and>
     (b \<longleftrightarrow> r = SPRET_SUCCESS) \<and> (r = SPRET_FAIL \<longrightarrow> turn_is_over st')"
  by (auto simp: activate_talent_def attempt_outcome_def Let_def
      split: if_splits sum.splits prod.splits spret_type.splits)

theorem activate_talent_true_iff_success_witness:
  "\<not> isl (activate_talent effect_succeeds fly_talent tengu_state high_rolls) \<and>
   fst (projr (activate_talent effect_succeeds fly_talent tengu_state high_rolls)) \<and>
   \<not> isl (attempt_outcome effect_succeeds fly_talent tengu_state high_rolls) \<and>
   fst (projr (attempt_outcome effect_succeeds fly_talent tengu_state high_rolls))
     = SPRET_SUCCESS"
proof -
  have ev: "\<not> isl (activate_talent effect_succeeds fly_talent tengu_state high_rolls) \<and>
    fst (projr (activate_talent effect_succeeds fly_talent tengu_state high_rolls))"
    by code_simp
  then obtain b st' g' where
    eq: "activate_talent effect_succeeds fly_talent tengu_state high_rolls = Inr (b, st', g')"
    and b: b
    by (cases "activate_talent effect_succeeds fly_talent tengu_state high_rolls") auto
  from activate_talent_true_iff_success [OF eq] b ev eq show ?thesis by auto
qed

text \<open>
  C2 as stated fails, at the same attempt: the outcome is failed-but-attempted, the turn is
  over, and \<open>activate_talent\<close> returns \<open>false\<close>.
\<close>

theorem failed_attempt_returns_false:
  "\<not> isl (attempt_outcome effect_succeeds fly_talent tengu_state low_rolls) \<and>
   fst (projr (attempt_outcome effect_succeeds fly_talent tengu_state low_rolls))
     = SPRET_FAIL \<and>
   \<not> isl (activate_talent effect_succeeds fly_talent tengu_state low_rolls) \<and>
   fst (projr (activate_talent effect_succeeds fly_talent tengu_state low_rolls)) = False \<and>
   turn_is_over (fst (snd (projr
      (activate_talent effect_succeeds fly_talent tengu_state low_rolls))))"
  by code_simp

subsection \<open>The order and the hotkeys of the talents on offer\<close>

lemma get_talent_class:
  assumes "get_talent a cc st = Inr (t, st')"
  shows "same_but_slots st st' \<and>
    (if which t = ABIL_NON_ABILITY then offered cc st [a] = []
     else offered cc st [a] = [talent_class t])"
proof -
  from assms have na: "a \<noteq> ABIL_NON_ABILITY"
    by (auto simp: get_talent_def split: if_splits)
  show ?thesis
  proof (cases "cc \<and> you_q st you_confused
      \<and> \<not> testbits (flags (get_ability_def (fixup_ability st a))) abflag_CONF_OK")
    case True
    with assms na show ?thesis
      by (auto simp: get_talent_def Let_def offered_def same_but_slots_refl)
  next
    case False
    with assms na obtain index letter where
      f: "find_ability_slot (ability (get_ability_def (fixup_ability st a))) CHR ''f'' st
            = Inr (index, st')" and
      t: "which t = fixup_ability st a" "is_invocation t = snd (talent_failure st' a)"
      by (auto simp: get_talent_def Let_def split: if_splits sum.splits prod.splits)
    from find_ability_slot_frame [OF f] have fr: "same_but_slots st st'" .
    then have "talent_failure st' = talent_failure st"
      by (auto simp: same_but_slots_def)
    with t False fr show ?thesis
      by (auto simp: offered_def talent_class_def)
  qed
qed

lemma add_talent_class:
  assumes "add_talent a cc (ts, st) = Inr (ts', st')"
  shows "same_but_slots st st' \<and>
    map talent_class ts' = map talent_class ts @ offered cc st [a]"
proof -
  from assms obtain t where g: "get_talent a cc st = Inr (t, st')"
    and ts': "ts' = (if which t \<noteq> ABIL_NON_ABILITY then ts @ [t] else ts)"
    by (auto simp: add_talent_def split: sum.splits)
  from get_talent_class [OF g] ts' show ?thesis by (auto split: if_splits)
qed

lemma offered_append: "offered cc st (xs @ ys) = offered cc st xs @ offered cc st ys"
  by (simp add: offered_def)

lemma offered_Cons: "offered cc st (a # as) = offered cc st [a] @ offered cc st as"
  using offered_append [of cc st "[a]" as] by simp

lemma add_talents_class:
  "add_talents as cc (ts, st) = Inr (ts', st') \<Longrightarrow>
   same_but_slots st st' \<and> map talent_class ts' = map talent_class ts @ offered cc st as"
proof (induction as arbitrary: ts st)
  case Nil
  then show ?case by (simp add: same_but_slots_refl offered_def)
next
  case (Cons a as)
  from Cons.prems obtain ts1 st1 where
    a1: "add_talent a cc (ts, st) = Inr (ts1, st1)" and
    r: "add_talents as cc (ts1, st1) = Inr (ts', st')"
    by (auto split: sum.splits)
  from add_talent_class [OF a1] have
    f1: "same_but_slots st st1" and
    m1: "map talent_class ts1 = map talent_class ts @ offered cc st [a]" by simp_all
  from Cons.IH [OF r] have
    f2: "same_but_slots st1 st'" and
    m2: "map talent_class ts' = map talent_class ts1 @ offered cc st1 as" by simp_all
  from f1 have "offered cc st1 = offered cc st" by (auto simp: same_but_slots_def)
  with m1 m2 have "map talent_class ts' = map talent_class ts @ offered cc st (a # as)"
    using offered_Cons [of cc st a as] by simp
  with same_but_slots_trans [OF f1 f2] show ?case by simp
qed



lemma talent_class_hotkey [simp]: "talent_class (t\<lparr>hotkey := k\<rparr>) = talent_class t"
  by (simp add: talent_class_def)

lemma find_hotkeys_class:
  "find_hotkeys visited ts st = Inr (ts', st') \<Longrightarrow>
   map talent_class ts' = map talent_class visited @ map talent_class ts"
proof (induction ts arbitrary: visited st)
  case Nil
  then show ?case by simp
next
  case (Cons t ts)
  from Cons.prems obtain t' st1 where
    r: "find_hotkeys (visited @ [t']) ts st1 = Inr (ts', st')" and
    c: "talent_class t' = talent_class t"
    by (auto simp: Let_def split: if_splits sum.splits option.splits)
  from Cons.IH [OF r] c show ?case by simp
qed


lemma in_set_if:
  "a \<in> set (if c then xs else ys) \<longleftrightarrow> (c \<and> a \<in> set xs) \<or> (\<not> c \<and> a \<in> set ys)"
  by simp

lemma item_abilities_members:
  "a \<in> set (item_abilities st) \<Longrightarrow>
   a \<in> {ABIL_BREATHE_FIRE, ABIL_DELAYED_FIREBALL, ABIL_STOP_SINGING, ABIL_EVOKE_BLINK,
      ABIL_EVOKE_FOG, ABIL_EVOKE_BERSERK, ABIL_EVOKE_TURN_VISIBLE,
      ABIL_EVOKE_TURN_INVISIBLE, ABIL_EVOKE_FLIGHT, ABIL_STOP_FLYING}"
  unfolding item_abilities_def
  by (simp only: set_append Un_iff in_set_if list.set empty_iff insert_iff) blast


lemma not_invocation_item:
  "a \<in> {ABIL_BREATHE_FIRE, ABIL_DELAYED_FIREBALL, ABIL_STOP_SINGING, ABIL_EVOKE_BLINK,
      ABIL_EVOKE_FOG, ABIL_EVOKE_BERSERK, ABIL_EVOKE_TURN_VISIBLE,
      ABIL_EVOKE_TURN_INVISIBLE, ABIL_EVOKE_FLIGHT, ABIL_STOP_FLYING} \<Longrightarrow>
   \<not> snd (talent_failure st a)"
  by (elim insertE emptyE; simp add: talent_failure_def)

lemma item_abilities_not_invocation:
  "a \<in> set (item_abilities st) \<Longrightarrow> \<not> snd (talent_failure st a)"
  using item_abilities_members [of a st] not_invocation_item [of a st] by blast


lemma innate_abilities_members:
  "a \<in> set (innate_abilities iu st) \<Longrightarrow>
   a = draconian_breath st \<or>
   a \<in> {ABIL_MUMMY_RESTORATION, ABIL_RECHARGING, ABIL_DIG, ABIL_SHAFT_SELF,
        ABIL_BREATHE_POISON, ABIL_SPIT_POISON, ABIL_TRAN_BAT, ABIL_FLY, ABIL_STOP_FLYING,
        ABIL_HELLFIRE, ABIL_END_TRANSFORMATION, ABIL_BLINK}"
  unfolding innate_abilities_def
  by (simp only: set_append Un_iff in_set_if list.set empty_iff insert_iff) blast

lemma not_invocation_innate:
  "a \<in> {ABIL_MUMMY_RESTORATION, ABIL_RECHARGING, ABIL_DIG, ABIL_SHAFT_SELF,
        ABIL_BREATHE_POISON, ABIL_SPIT_POISON, ABIL_TRAN_BAT, ABIL_FLY, ABIL_STOP_FLYING,
        ABIL_HELLFIRE, ABIL_END_TRANSFORMATION, ABIL_BLINK} \<Longrightarrow>
   \<not> snd (talent_failure st a)"
  by (elim insertE emptyE; simp add: talent_failure_def)

lemma innate_abilities_not_invocation:
  "a \<in> set (innate_abilities iu st) \<Longrightarrow> snd (talent_failure st a) \<Longrightarrow>
   a = draconian_breath st"
  using innate_abilities_members [of a iu st] not_invocation_innate [of a st] by blast

lemma faith_exit_abilities_invocation:
  "a \<in> set (faith_exit_abilities st) \<Longrightarrow> snd (talent_failure st a)"
  unfolding faith_exit_abilities_def
  by (simp only: set_append Un_iff in_set_if list.set empty_iff insert_iff)
     (auto simp: talent_failure_def)

lemma offered_set:
  "c \<in> set (offered cc st as) \<Longrightarrow>
   \<exists>a \<in> set as. c = (fixup_ability st a, snd (talent_failure st a))"
  by (auto simp: offered_def)

lemma menu_order_grouped:
  "distinct (menu_order ts) \<and> set (menu_order ts) = {..<length ts} \<and>
   (\<exists>xs ys. menu_order ts = xs @ ys \<and> (\<forall>i \<in> set xs. \<not> is_invocation (ts ! i))
      \<and> (\<forall>i \<in> set ys. is_invocation (ts ! i)))"
proof -
  have "distinct (menu_order ts)" and "set (menu_order ts) = {..<length ts}"
    by (auto simp: menu_order_def)
  moreover have "\<exists>xs ys. menu_order ts = xs @ ys
      \<and> (\<forall>i \<in> set xs. \<not> is_invocation (ts ! i))
      \<and> (\<forall>i \<in> set ys. is_invocation (ts ! i))"
    unfolding menu_order_def
    by (rule exI [of _ "filter (\<lambda>i. \<not> is_invocation (ts ! i)) [0..<length ts]"],
        rule exI [of _ "filter (\<lambda>i. is_invocation (ts ! i)) [0..<length ts]"]) simp
  ultimately show ?thesis by blast
qed


lemma your_talents_stages:
  assumes "your_talents cc iu st = Inr (ts, st')"
  shows "\<exists>ts1 st1 gods ts2 st2 ts3 st3.
     add_talents (innate_abilities iu st) cc ([], st) = Inr (ts1, st1) \<and>
     get_god_abilities iu False iu st1 = Inr gods \<and>
     add_talents (gods @ faith_exit_abilities st1) cc (ts1, st1) = Inr (ts2, st2) \<and>
     add_talents (item_abilities st2) cc (ts2, st2) = Inr (ts3, st3) \<and>
     find_hotkeys [] ts3 st3 = Inr (ts, st')"
  using assms by (auto simp: your_talents_def split: sum.splits)

text \<open>
  C6, as the source has it. Whenever \<open>your_talents\<close> returns, the identities and classes of
  its talents are, in this order, those kept of the species, form and mutation abilities,
  those kept of the god's abilities followed by Renounce Religion and Convert to Beogh, and
  those kept of the abilities from the dragon form, a stored fireball, a song and items.
  In the first block only the talent of the draconian breath ability can be of the
  invocation class, Renounce Religion and Convert to Beogh are, and no talent of the last
  block is: talents that are not invocations may follow the invocations. The menu built from
  the sequence lists every talent once, those that are not invocations before the
  invocations.
\<close>

theorem your_talents_order:
  assumes "your_talents cc iu st = Inr (ts, st')"
  shows "\<exists>gods. get_god_abilities iu False iu st = Inr gods \<and>
     map talent_class ts =
       offered cc st (innate_abilities iu st)
       @ offered cc st (gods @ faith_exit_abilities st)
       @ offered cc st (item_abilities st) \<and>
     (\<forall>c \<in> set (offered cc st (innate_abilities iu st)).
        snd c \<longrightarrow> fst c = fixup_ability st (draconian_breath st)) \<and>
     (\<forall>c \<in> set (offered cc st (faith_exit_abilities st)). snd c) \<and>
     (\<forall>c \<in> set (offered cc st (item_abilities st)). \<not> snd c) \<and>
     distinct (menu_order ts) \<and> set (menu_order ts) = {..<length ts} \<and>
     (\<exists>xs ys. menu_order ts = xs @ ys \<and> (\<forall>i \<in> set xs. \<not> is_invocation (ts ! i))
        \<and> (\<forall>i \<in> set ys. is_invocation (ts ! i)))"
proof -
  from your_talents_stages [OF assms] obtain ts1 st1 gods ts2 st2 ts3 st3 where
    a1: "add_talents (innate_abilities iu st) cc ([], st) = Inr (ts1, st1)" and
    g: "get_god_abilities iu False iu st1 = Inr gods" and
    a2: "add_talents (gods @ faith_exit_abilities st1) cc (ts1, st1) = Inr (ts2, st2)" and
    a3: "add_talents (item_abilities st2) cc (ts2, st2) = Inr (ts3, st3)" and
    h: "find_hotkeys [] ts3 st3 = Inr (ts, st')"
    by blast
  from add_talents_class [OF a1] have
    f1: "same_but_slots st st1" and
    m1: "map talent_class ts1 = offered cc st (innate_abilities iu st)" by simp_all
  from add_talents_class [OF a2] have
    f2: "same_but_slots st1 st2" and
    m2: "map talent_class ts2
          = map talent_class ts1 @ offered cc st1 (gods @ faith_exit_abilities st1)"
    by simp_all
  from add_talents_class [OF a3] have
    m3: "map talent_class ts3 = map talent_class ts2 @ offered cc st2 (item_abilities st2)"
    by simp
  from f1 obtain tbl1 where st1: "st1 = st\<lparr>ability_letter_table := tbl1\<rparr>"
    by (auto simp: same_but_slots_def)
  from same_but_slots_trans [OF f1 f2] obtain tbl2 where
    st2: "st2 = st\<lparr>ability_letter_table := tbl2\<rparr>"
    by (auto simp: same_but_slots_def)
  from g st1 have g': "get_god_abilities iu False iu st = Inr gods" by simp
  from find_hotkeys_class [OF h] m1 m2 m3 st1 st2 have order:
    "map talent_class ts =
       offered cc st (innate_abilities iu st)
       @ offered cc st (gods @ faith_exit_abilities st)
       @ offered cc st (item_abilities st)"
    by simp
  have innate: "\<forall>c \<in> set (offered cc st (innate_abilities iu st)).
        snd c \<longrightarrow> fst c = fixup_ability st (draconian_breath st)"
    by (auto dest!: offered_set dest: innate_abilities_not_invocation)
  have exits: "\<forall>c \<in> set (offered cc st (faith_exit_abilities st)). snd c"
    by (auto dest!: offered_set dest: faith_exit_abilities_invocation)
  have items: "\<forall>c \<in> set (offered cc st (item_abilities st)). \<not> snd c"
    by (auto dest!: offered_set dest: item_abilities_not_invocation)
  from g' order innate exits items menu_order_grouped [of ts] show ?thesis by blast
qed

text \<open>
  C6 as stated fails. For the worshipper of Makhleb with the artefact, \<open>your_talents\<close>
  returns Minor Destruction, Lesser Servant of Makhleb and Renounce Religion, which are
  invocations, and after them Evoke Blink, which is not.
\<close>

theorem item_talent_follows_invocations:
  "\<not> isl (your_talents False False makhleb_state) \<and>
   map which (fst (projr (your_talents False False makhleb_state)))
     = [ABIL_MAKHLEB_MINOR_DESTRUCTION, ABIL_MAKHLEB_LESSER_SERVANT_OF_MAKHLEB,
        ABIL_RENOUNCE_RELIGION, ABIL_EVOKE_BLINK] \<and>
   map is_invocation (fst (projr (your_talents False False makhleb_state)))
     = [True, True, True, False]"
  by code_simp

theorem your_talents_order_witness:
  "\<not> isl (your_talents False False makhleb_state) \<and>
   map talent_class (fst (projr (your_talents False False makhleb_state)))
     = offered False makhleb_state (innate_abilities False makhleb_state)
       @ offered False makhleb_state
           ([ABIL_MAKHLEB_MINOR_DESTRUCTION, ABIL_MAKHLEB_LESSER_SERVANT_OF_MAKHLEB]
            @ faith_exit_abilities makhleb_state)
       @ offered False makhleb_state (item_abilities makhleb_state) \<and>
   offered False makhleb_state (item_abilities makhleb_state) = [(ABIL_EVOKE_BLINK, False)]"
proof -
  have ev: "\<not> isl (your_talents False False makhleb_state)" by code_simp
  then obtain ts st' where eq: "your_talents False False makhleb_state = Inr (ts, st')"
    by (cases "your_talents False False makhleb_state") auto
  have gods: "get_god_abilities False False False makhleb_state
      = Inr [ABIL_MAKHLEB_MINOR_DESTRUCTION, ABIL_MAKHLEB_LESSER_SERVANT_OF_MAKHLEB]"
    by code_simp
  have items: "offered False makhleb_state (item_abilities makhleb_state)
      = [(ABIL_EVOKE_BLINK, False)]"
    by code_simp
  from your_talents_order [OF eq] gods items eq show ?thesis by auto
qed

text \<open>
  C7. With a full slot table \<open>find_ability_slot\<close> returns \<open>-1\<close> for Hellfire and for
  Blink, and the loop that looks for free hotkeys checks the letter \<open>Z\<close> against the other
  talents but stores the index 51 in each of the two talents: both are offered with the
  hotkey 51.
\<close>

theorem two_talents_one_hotkey:
  "\<not> isl (your_talents False False full_table_state) \<and>
   map which (fst (projr (your_talents False False full_table_state)))
     = [ABIL_HELLFIRE, ABIL_BLINK] \<and>
   map hotkey (fst (projr (your_talents False False full_table_state))) = [51, 51]"
  by code_simp

end
